theory Spec2Isabelle
  imports Main "HOL-Library.Word"
begin

section \<open>Contexts and time\<close>

text \<open>
  Instants and durations are counted in nanoseconds, as \<^verbatim>\<open>time.Duration\<close> does.
  \<^verbatim>\<open>time.Second\<close> is the constant \<open>1000000000\<close>.
\<close>

definition Second :: int where
  "Second = 1000000000"

text \<open>
  \<^verbatim>\<open>time.Duration(n) * time.Second\<close> is a multiplication of two signed 64-bit
  integers: it wraps.
\<close>

definition Duration_seconds :: "int \<Rightarrow> int" where
  "Duration_seconds n = sint (word_of_int n * word_of_int Second :: 64 word)"

text \<open>
  A \<^verbatim>\<open>context.Context\<close> is the chain of its derivations. \<open>WithCancel p c\<close> is
  a child of \<open>p\<close> whose cancel function is called at instant \<open>c\<close> (never, when
  \<open>c\<close> is \<open>None\<close>); \<open>WithDeadline p d\<close> is a child of \<open>p\<close> that expires at \<open>d\<close>.
\<close>

datatype "context" = Background
  | WithCancel "context" "int option"
  | WithDeadline "context" int

text \<open>\<^verbatim>\<open>context.WithTimeout(parent, d)\<close> is \<^verbatim>\<open>WithDeadline(parent, time.Now().Add(d))\<close>.\<close>

definition WithTimeout :: "context \<Rightarrow> int \<Rightarrow> int \<Rightarrow> context" where
  "WithTimeout parent now d = WithDeadline parent (now + d)"

fun earliest :: "int option \<Rightarrow> int option \<Rightarrow> int option" where
  "earliest None b = b"
| "earliest (Some a) None = Some a"
| "earliest (Some a) (Some b) = Some (min a b)"

text \<open>The instant at which \<^verbatim>\<open>ctx.Done()\<close> is closed, if there is one.\<close>

fun done_time :: "context \<Rightarrow> int option" where
  "done_time Background = None"
| "done_time (WithCancel p c) = earliest (done_time p) c"
| "done_time (WithDeadline p d) = earliest (done_time p) (Some d)"

section \<open>The WebSocket gateway: wire types\<close>

record WSMessage =
  Action :: string
  Payload :: string

record TaskRequest =
  Name :: string
  Image :: string
  Command :: "string list"
  Env :: "(string \<times> string) list"
  WorkingDir :: string
  InstanceType :: string
  Timeout :: int

record TaskResponse =
  TaskID :: string
  Status :: string
  Output :: string
  Error :: string
  IsError :: bool
  ExitCode :: string
  CompletedAt :: string

text \<open>The zero value of \<^verbatim>\<open>TaskResponse\<close>, from which every composite literal starts.\<close>

definition TaskResponse_zero :: TaskResponse where
  "TaskResponse_zero =
     \<lparr>TaskID = [], Status = [], Output = [], Error = [], IsError = False,
      ExitCode = [], CompletedAt = []\<rparr>"

subsection \<open>The domain package, as the handlers use it\<close>

record WorkerSpec =
  spec_Type :: string
  spec_Image :: string
  spec_Command :: "string list"
  spec_Env :: "(string \<times> string) list"
  spec_WorkingDir :: string

text \<open>\<^verbatim>\<open>domain.State\<close> converts to a string with \<^verbatim>\<open>string(task.State)\<close>: it is kept as that string.\<close>

record Task =
  task_ID :: string
  task_Name :: string
  task_State :: string
  task_WorkerSpec :: WorkerSpec
  task_CreatedAt :: int

text \<open>
  One record of the output channel. The type of its \<^verbatim>\<open>Status\<close> field is declared in
  the domain package; the handlers only call its \<^verbatim>\<open>String\<close> method, so the type is
  a parameter \<open>'s\<close>.
\<close>

record 's ProcessOutput =
  po_Output :: string
  po_IsError :: bool
  po_Status :: 's

text \<open>
  A receive-only channel as its consumer sees it: the records it delivers, in order, and
  whether the producer closes it after the last one. A \<^verbatim>\<open>for range\<close> over a channel
  that is never closed waits forever once the records are consumed.
\<close>

record 'a chan =
  items :: "'a list"
  closes :: bool

subsection \<open>The connection\<close>

text \<open>The \<^verbatim>\<open>map[string]interface{}\<close> that ends the create-task relay.\<close>

record DoneMsg =
  dm_done :: bool
  dm_exit_code :: int
  dm_message :: string
  dm_status :: string

datatype frame =
    JSONMessage WSMessage
  | JSONDone DoneMsg
  | CloseMessage nat string
  | PingMessage

text \<open>
  What the handler's goroutine did to the connection: a write that succeeded, a write that
  returned an error, and \<^verbatim>\<open>conn.Close()\<close>.
\<close>

datatype conn_event = Wrote frame | WriteFailed frame | ConnClosed

text \<open>
  \<open>write_errs\<close> decides the writes to come: the head is \<open>True\<close> when the next write
  returns an error; once the list is used up, writes succeed.
\<close>

record Conn =
  events :: "conn_event list"
  write_errs :: "bool list"

definition conn_write :: "frame \<Rightarrow> Conn \<Rightarrow> bool \<times> Conn" where
  "conn_write f c =
     (case write_errs c of
        [] \<Rightarrow> (True, c\<lparr>events := events c @ [Wrote f]\<rparr>)
      | e # es \<Rightarrow>
          (\<not> e, c\<lparr>events := events c @ [if e then WriteFailed f else Wrote f],
                  write_errs := es\<rparr>))"

text \<open>The frames that reached the client, in the order of their writes.\<close>

fun written :: "conn_event list \<Rightarrow> frame list" where
  "written [] = []"
| "written (Wrote f # es) = f # written es"
| "written (WriteFailed f # es) = written es"
| "written (ConnClosed # es) = written es"

subsection \<open>The executor and the other collaborators\<close>

datatype worker_call =
    AddTask_call "context" Task
  | StopTask_call string
  | GetTask_call string
  | GetTasks_call

datatype data = DataResponse TaskResponse | DataTasks "Task list"

text \<open>
  Everything the handlers call and this file does not define: the executor
  (\<^verbatim>\<open>h.worker\<close>, whose answers may depend on the calls made so far), the JSON codec,
  \<^verbatim>\<open>uuid.New\<close>, the clock, and the declarations of the domain package
  (\<open>FINISHED_String\<close> is what \<^verbatim>\<open>domain.FINISHED.String()\<close> returns). An error value
  is kept as its text.
\<close>

record 's env =
  AddTask :: "worker_call list \<Rightarrow> context \<Rightarrow> Task \<Rightarrow> string + 's ProcessOutput chan"
  StopTask :: "worker_call list \<Rightarrow> string \<Rightarrow> string option"
  GetTask :: "worker_call list \<Rightarrow> string \<Rightarrow> string + Task"
  GetTasks :: "worker_call list \<Rightarrow> string + Task list"
  Marshal :: "data \<Rightarrow> string option"
  Unmarshal_TaskRequest :: "string \<Rightarrow> TaskRequest option"
  Unmarshal_task_id :: "string \<Rightarrow> string option"
  uuid_New :: "nat \<Rightarrow> string"
  Now :: "nat \<Rightarrow> int"
  Format_RFC3339 :: "int \<Rightarrow> string"
  Status_String :: "'s \<Rightarrow> string"
  FINISHED_String :: string
  Scheduled :: string
  Completed :: string

text \<open>
  The state a handler threads: the connection, the calls made to the executor, and how many
  identifiers and clock readings were drawn.
\<close>

record St =
  conn :: Conn
  calls :: "worker_call list"
  n_uuid :: nat
  n_now :: nat

datatype outcome = Returned | Blocked

section \<open>The WebSocket gateway: handlers\<close>

definition sendJSON :: "'s env \<Rightarrow> string \<Rightarrow> data \<Rightarrow> St \<Rightarrow> bool \<times> St" where
  "sendJSON e action d s =
     (case Marshal e d of
        None \<Rightarrow> (False, s)
      | Some raw \<Rightarrow>
          (case conn_write (JSONMessage \<lparr>Action = action, Payload = raw\<rparr>) (conn s) of
             (ok, c) \<Rightarrow> (ok, s\<lparr>conn := c\<rparr>)))"

definition sendError :: "'s env \<Rightarrow> string \<Rightarrow> string \<Rightarrow> St \<Rightarrow> St" where
  "sendError e code msg s =
     snd (sendJSON e ''task_error''
            (DataResponse (TaskResponse_zero\<lparr>IsError := True, ExitCode := code, Error := msg\<rparr>)) s)"


text \<open>
  \<^verbatim>\<open>createTaskFromRequest\<close>. The goroutine it starts calls \<open>cancel\<close> only once the
  context is done already, so the cancel function of the task's context is never called
  before that: \<open>WithCancel parent None\<close>.
\<close>

definition createTaskFromRequest ::
  "'s env \<Rightarrow> context \<Rightarrow> TaskRequest \<Rightarrow> St \<Rightarrow> (Task \<times> context) \<times> St" where
  "createTaskFromRequest e parent req s =
     (let taskCtx0 = WithCancel parent None;
          timed = (0 < Timeout req);
          taskCtx = (if timed
                     then WithTimeout taskCtx0 (Now e (n_now s)) (Duration_seconds (Timeout req))
                     else taskCtx0);
          k = (if timed then Suc (n_now s) else n_now s);
          task = \<lparr>task_ID = uuid_New e (n_uuid s),
                  task_Name = Name req,
                  task_State = Scheduled e,
                  task_WorkerSpec =
                    \<lparr>spec_Type = InstanceType req, spec_Image = Image req,
                     spec_Command = Command req, spec_Env = Env req,
                     spec_WorkingDir = WorkingDir req\<rparr>,
                  task_CreatedAt = Now e k\<rparr>
      in ((task, taskCtx), s\<lparr>n_uuid := Suc (n_uuid s), n_now := Suc k\<rparr>))"

text \<open>
  The relay loop of \<^verbatim>\<open>handleCreateTask\<close> over the records the channel delivers. The
  result is \<open>True\<close> when the loop consumed them all, \<open>False\<close> when it returned from
  the handler (serialisation or write error).
\<close>

fun relay :: "'s env \<Rightarrow> string \<Rightarrow> 's ProcessOutput list \<Rightarrow> St \<Rightarrow> bool \<times> St" where
  "relay e tid [] s = (True, s)"
| "relay e tid (output # rest) s =
     (let resp = TaskResponse_zero
                   \<lparr>TaskID := tid, Output := po_Output output, IsError := po_IsError output,
                    Status := Status_String e (po_Status output)\<rparr>
      in case Marshal e (DataResponse resp) of
           None \<Rightarrow> (False, s)
         | Some payload \<Rightarrow>
             (case conn_write (JSONMessage \<lparr>Action = ''task_output'', Payload = payload\<rparr>)
                     (conn s) of
                (False, c) \<Rightarrow> (False, s\<lparr>conn := c\<rparr>)
              | (True, c) \<Rightarrow> relay e tid rest (s\<lparr>conn := c\<rparr>)))"

definition doneMsg :: "'s env \<Rightarrow> DoneMsg" where
  "doneMsg e =
     \<lparr>dm_done = True, dm_exit_code = 0, dm_message = ''Process completed successfully'',
      dm_status = FINISHED_String e\<rparr>"

definition CloseNormalClosure :: nat where
  "CloseNormalClosure = 1000"

text \<open>What follows the relay loop once the channel is closed: the final message and a close frame.\<close>

definition send_done :: "'s env \<Rightarrow> St \<Rightarrow> St" where
  "send_done e s =
     (let c1 = snd (conn_write (JSONDone (doneMsg e)) (conn s));
          c2 = snd (conn_write (CloseMessage CloseNormalClosure ''Process finished'') c1)
      in s\<lparr>conn := c2\<rparr>)"

definition handleCreateTask :: "'s env \<Rightarrow> context \<Rightarrow> string \<Rightarrow> St \<Rightarrow> St \<times> outcome" where
  "handleCreateTask e ctx payload s =
     (case Unmarshal_TaskRequest e payload of
        None \<Rightarrow> (sendError e ''invalid_request'' ''Error decoding task request'' s, Returned)
      | Some req \<Rightarrow>
          if Name req = [] \<or> Image req = []
          then (sendError e ''validation_error'' ''Name and Image are required fields'' s,
                Returned)
          else
            (case createTaskFromRequest e ctx req s of
               ((task, taskCtx), s1) \<Rightarrow>
                 (let s2 = s1\<lparr>calls := calls s1 @ [AddTask_call taskCtx task]\<rparr>
                  in case AddTask e (calls s1) taskCtx task of
                       Inl err \<Rightarrow>
                         (sendError e ''create_error'' (''Error creating task: '' @ err) s2,
                          Returned)
                     | Inr outputChan \<Rightarrow>
                         (case relay e (task_ID task) (items outputChan) s2 of
                            (False, s3) \<Rightarrow> (s3, Returned)
                          | (True, s3) \<Rightarrow>
                              if closes outputChan then (send_done e s3, Returned)
                              else (s3, Blocked)))))"

text \<open>
  \<^verbatim>\<open>sendTaskCompletion\<close>, the deferred call of \<^verbatim>\<open>streamTaskOutput\<close>.
\<close>

definition sendTaskCompletion :: "'s env \<Rightarrow> string \<Rightarrow> St \<Rightarrow> St" where
  "sendTaskCompletion e taskID s =
     (let s1 = s\<lparr>calls := calls s @ [GetTask_call taskID]\<rparr>
      in case GetTask e (calls s) taskID of
           Inl err \<Rightarrow> sendError e ''task_error'' (''Error getting task status: '' @ err) s1
         | Inr task \<Rightarrow>
             (let resp = TaskResponse_zero
                           \<lparr>TaskID := taskID, Status := task_State task,
                            CompletedAt := Format_RFC3339 e (Now e (n_now s1))\<rparr>;
                  s2 = s1\<lparr>n_now := Suc (n_now s1)\<rparr>;
                  resp' = (if task_State task = Completed e
                           then resp\<lparr>ExitCode := ''COMPLETED''\<rparr>
                           else resp\<lparr>ExitCode := ''1'', Error := ''Task failed to complete''\<rparr>)
              in snd (sendJSON e ''task_completed'' (DataResponse resp') s2)))"

text \<open>
  The loop of \<^verbatim>\<open>streamTaskOutput\<close>. \<open>ctx_Done i\<close> tells whether \<^verbatim>\<open>ctx.Done()\<close> is
  closed when the \<open>i\<close>-th iteration polls it. The keepalive ping is a write like any
  other, and its result is dropped.
\<close>

datatype stream_exit = ChannelDrained | SendFailed | Cancelled

fun stream_loop ::
  "'s env \<Rightarrow> (nat \<Rightarrow> bool) \<Rightarrow> string \<Rightarrow> nat \<Rightarrow> 's ProcessOutput list \<Rightarrow> St \<Rightarrow> stream_exit \<times> St"
  where
  "stream_loop e ctx_Done taskID i [] s = (ChannelDrained, s)"
| "stream_loop e ctx_Done taskID i (output # rest) s =
     (case sendJSON e ''task_output''
             (DataResponse (TaskResponse_zero
                \<lparr>TaskID := taskID, Output := po_Output output, IsError := po_IsError output,
                 Status := Status_String e (po_Status output)\<rparr>)) s of
        (False, s1) \<Rightarrow> (SendFailed, s1)
      | (True, s1) \<Rightarrow>
          if ctx_Done i
          then (Cancelled, s1\<lparr>calls := calls s1 @ [StopTask_call taskID]\<rparr>)
          else stream_loop e ctx_Done taskID (Suc i) rest
                 (s1\<lparr>conn := snd (conn_write PingMessage (conn s1))\<rparr>))"

definition streamTaskOutput ::
  "'s env \<Rightarrow> (nat \<Rightarrow> bool) \<Rightarrow> string \<Rightarrow> 's ProcessOutput chan \<Rightarrow> St \<Rightarrow> St \<times> outcome" where
  "streamTaskOutput e ctx_Done taskID outputChan s =
     (case stream_loop e ctx_Done taskID 0 (items outputChan) s of
        (ChannelDrained, s1) \<Rightarrow>
          if closes outputChan then (sendTaskCompletion e taskID s1, Returned)
          else (s1, Blocked)
      | (x, s1) \<Rightarrow> (sendTaskCompletion e taskID s1, Returned))"

definition handleStopTask :: "'s env \<Rightarrow> string \<Rightarrow> St \<Rightarrow> St" where
  "handleStopTask e payload s =
     (case Unmarshal_task_id e payload of
        None \<Rightarrow> sendError e ''invalid_request'' ''Invalid task ID format'' s
      | Some tid \<Rightarrow>
          (let s1 = s\<lparr>calls := calls s @ [StopTask_call tid]\<rparr>
           in case StopTask e (calls s) tid of
                Some err \<Rightarrow> sendError e ''stop_error'' err s1
              | None \<Rightarrow>
                  snd (sendJSON e ''task_stopped''
                         (DataResponse (TaskResponse_zero\<lparr>TaskID := tid, Status := ''stopped''\<rparr>))
                         s1)))"

definition handleListTasks :: "'s env \<Rightarrow> St \<Rightarrow> St" where
  "handleListTasks e s =
     (let s1 = s\<lparr>calls := calls s @ [GetTasks_call]\<rparr>
      in case GetTasks e (calls s) of
           Inl err \<Rightarrow> sendError e ''list_error'' ''Error retrieving tasks'' s1
         | Inr tasks \<Rightarrow> snd (sendJSON e ''task_list'' (DataTasks tasks) s1))"

subsection \<open>The connection handler\<close>

text \<open>
  The upgrade request: its \<^verbatim>\<open>Origin\<close> and \<^verbatim>\<open>Host\<close> headers, whether it is a well-formed
  WebSocket handshake, and its context.
\<close>

record Request =
  Origin :: string
  Host :: string
  handshake :: bool
  req_Context :: "context"

text \<open>\<^verbatim>\<open>upgrader.CheckOrigin\<close>.\<close>

definition CheckOrigin :: "Request \<Rightarrow> bool" where
  "CheckOrigin r = True"

text \<open>
  \<^verbatim>\<open>upgrader.Upgrade\<close>: the library refuses a malformed handshake and a request whose
  origin the predicate rejects, and calls the predicate once.
\<close>

definition Upgrade :: "Request \<Rightarrow> bool list \<Rightarrow> Conn option" where
  "Upgrade r errs =
     (if handshake r \<and> CheckOrigin r then Some \<lparr>events = [], write_errs = errs\<rparr> else None)"

text \<open>What \<^verbatim>\<open>conn.ReadJSON\<close> returns: a decoded envelope, or an error (text kept).\<close>

datatype read_result = ReadMsg WSMessage | ReadErr string

definition dispatch :: "'s env \<Rightarrow> context \<Rightarrow> WSMessage \<Rightarrow> St \<Rightarrow> St \<times> outcome" where
  "dispatch e ctx msg s =
     (if Action msg = ''create_task'' then handleCreateTask e ctx (Payload msg) s
      else if Action msg = ''stop_task'' then (handleStopTask e (Payload msg) s, Returned)
      else if Action msg = ''list_tasks'' then (handleListTasks e s, Returned)
      else (sendError e ''unknown_action'' ''Unsupported action type'' s, Returned))"

text \<open>
  The read loop over what the successive reads return. When the reads are used up the
  loop waits in \<^verbatim>\<open>ReadJSON\<close>; a read error breaks out of it; a handler that never
  returns keeps the loop from reading again.
\<close>

fun read_loop :: "'s env \<Rightarrow> context \<Rightarrow> read_result list \<Rightarrow> St \<Rightarrow> St \<times> outcome" where
  "read_loop e ctx [] s = (s, Blocked)"
| "read_loop e ctx (ReadErr err # rest) s = (s, Returned)"
| "read_loop e ctx (ReadMsg msg # rest) s =
     (case dispatch e ctx msg s of
        (s1, Blocked) \<Rightarrow> (s1, Blocked)
      | (s1, Returned) \<Rightarrow> read_loop e ctx rest s1)"

text \<open>The deferred teardown: a close frame, then \<^verbatim>\<open>conn.Close()\<close>.\<close>

definition teardown :: "St \<Rightarrow> St" where
  "teardown s =
     (let c1 = snd (conn_write (CloseMessage CloseNormalClosure ''Closing normally'') (conn s))
      in s\<lparr>conn := c1\<lparr>events := events c1 @ [ConnClosed]\<rparr>\<rparr>)"

text \<open>
  \<^verbatim>\<open>HandleConnection\<close>: \<open>None\<close> when the upgrade fails. The cancel function of the
  connection's context is deferred, so it is not called while the loop runs. The ping
  goroutine writes to the same connection on its own timer; its frames are not part of
  this trace.
\<close>

definition HandleConnection ::
  "'s env \<Rightarrow> Request \<Rightarrow> bool list \<Rightarrow> read_result list \<Rightarrow> (St \<times> outcome) option" where
  "HandleConnection e r errs reads =
     (case Upgrade r errs of
        None \<Rightarrow> None
      | Some c \<Rightarrow>
          (let ctx = WithCancel (req_Context r) None
           in case read_loop e ctx reads \<lparr>conn = c, calls = [], n_uuid = 0, n_now = 0\<rparr> of
                (s, Blocked) \<Rightarrow> Some (s, Blocked)
              | (s, Returned) \<Rightarrow> Some (teardown s, Returned)))"


section \<open>The remote-process client\<close>

record ProcessStartRequest =
  psr_ProcessId :: string
  psr_Command :: "string list"
  psr_Environment :: "(string \<times> string) list"
  psr_WorkingDirectory :: string

record pb_ProcessOutput =
  pb_process_id :: string
  pb_output :: string
  pb_is_error :: bool

record ProcessStopRequest =
  stop_ProcessId :: string

record ProcessStopResponse =
  Success :: bool
  Message :: string

record HealthCheckRequest =
  hc_ProcessId :: string
  hc_CheckInterval :: int

record HealthStatus =
  hs_ProcessId :: string
  hs_IsRunning :: bool
  hs_Status :: string
  hs_IsHealthy :: bool

subsection \<open>StartProcess\<close>

text \<open>
  What one iteration of the receiver loop meets: \<^verbatim>\<open>stream.Recv\<close> returns a frame
  (\<open>Frame resp taken\<close>, where \<open>taken\<close> tells whether the consumer ever receives it from
  the channel), returns \<^verbatim>\<open>io.EOF\<close>, returns another error, or the iteration panics.
\<close>

datatype 'a recv = Frame 'a bool | EOF | RecvError string | Fault string

text \<open>
  What the goroutine does that others can see: a value delivered on its channel, a value
  offered in a \<^verbatim>\<open>select\<close> that the context's cancellation won, the closing of the
  channel, a log line.
\<close>

datatype 'a gevent = ChanSend 'a | SendAbandoned 'a | ChanClose | Log string

text \<open>How the loop ends; \<open>Stuck\<close> when it never does.\<close>

datatype loop_exit = EndOfStream | ReceiveError string | Panicked string | ContextDone | Stuck

fun receive_loop :: "'a recv list \<Rightarrow> 'a gevent list \<times> loop_exit" where
  "receive_loop [] = ([], Stuck)"
| "receive_loop (EOF # es) = ([], EndOfStream)"
| "receive_loop (RecvError err # es) = ([Log (''Error receiving response: '' @ err)], ReceiveError err)"
| "receive_loop (Fault v # es) = ([], Panicked v)"
| "receive_loop (Frame resp taken # es) =
     (if taken
      then (case receive_loop es of (tr, x) \<Rightarrow> (ChanSend resp # tr, x))
      else ([], Stuck))"

text \<open>The goroutine: the loop under its deferred function, which recovers and closes the channel.\<close>

definition receiver :: "'a recv list \<Rightarrow> 'a gevent list \<times> loop_exit" where
  "receiver es =
     (case receive_loop es of
        (tr, Stuck) \<Rightarrow> (tr, Stuck)
      | (tr, Panicked v) \<Rightarrow>
          (tr @ [Log (''Recovered in StartProcess: '' @ v), ChanClose], Panicked v)
      | (tr, x) \<Rightarrow> (tr @ [ChanClose], x))"

text \<open>
  The server's side of a stream, as the client meets it: the error of opening it, of the
  first \<^verbatim>\<open>Send\<close>, of \<^verbatim>\<open>CloseSend\<close> (\<open>None\<close> for no error), and what the receives meet.
\<close>

record 'ev stream =
  open_err :: "string option"
  send_err :: "string option"
  close_send_err :: "string option"
  recvs :: "'ev list"

text \<open>
  \<^verbatim>\<open>StartProcess\<close> returns its error, the requests it sent, and what the goroutine does
  when it was started.
\<close>

definition StartProcess ::
  "pb_ProcessOutput recv stream \<Rightarrow> string \<Rightarrow> string list \<Rightarrow> (string \<times> string) list \<Rightarrow> string \<Rightarrow>
     string option \<times> ProcessStartRequest list \<times> (pb_ProcessOutput gevent list \<times> loop_exit) option"
  where
  "StartProcess st processID command environ workingDir =
     (let rq = \<lparr>psr_ProcessId = processID, psr_Command = command,
                psr_Environment = environ, psr_WorkingDirectory = workingDir\<rparr>
      in case open_err st of
           Some err \<Rightarrow> (Some (''error creating stream: '' @ err), [], None)
         | None \<Rightarrow>
             (case send_err st of
                Some err \<Rightarrow> (Some (''error sending request: '' @ err), [], None)
              | None \<Rightarrow>
                  (case close_send_err st of
                     Some err \<Rightarrow> (Some (''error closing send stream: '' @ err), [rq], None)
                   | None \<Rightarrow> (None, [rq], Some (receiver (recvs st))))))"

subsection \<open>StopProcess\<close>

text \<open>
  The server of a unary call: it answers after a delay, fails after a delay, or never
  answers. The generated stub returns when the server has answered or when the context is
  done, whichever comes first; the result carries the instant of the return, and \<open>None\<close>
  is a call that never returns.
\<close>

datatype 'r server = Replies nat 'r | Fails nat string | Silent

definition context_error :: string where
  "context_error = ''rpc error: context done''"

fun answer_of :: "'r server \<Rightarrow> int \<Rightarrow> ((string + 'r) \<times> int) option" where
  "answer_of (Replies d r) now = Some (Inr r, now + int d)"
| "answer_of (Fails d err) now = Some (Inl err, now + int d)"
| "answer_of Silent now = None"

definition unary_call :: "'r server \<Rightarrow> context \<Rightarrow> int \<Rightarrow> ((string + 'r) \<times> int) option" where
  "unary_call srv ctx now =
     (case done_time ctx of
        None \<Rightarrow> answer_of srv now
      | Some t \<Rightarrow>
          (case answer_of srv now of
             None \<Rightarrow> Some (Inl context_error, max now t)
           | Some (r, t') \<Rightarrow>
               if t' < t then Some (r, t') else Some (Inl context_error, max now t)))"

text \<open>
  \<^verbatim>\<open>StopProcess\<close>, called at instant \<open>now\<close>: the triple it returns and the instant of the
  return.
\<close>

definition StopProcess ::
  "(ProcessStopRequest \<Rightarrow> ProcessStopResponse server) \<Rightarrow> context \<Rightarrow> int \<Rightarrow> string \<Rightarrow>
     ((bool \<times> string \<times> string option) \<times> int) option" where
  "StopProcess srv ctx now processID =
     (let request = \<lparr>stop_ProcessId = processID\<rparr>;
          ctx' = WithTimeout ctx now (5 * Second)
      in case unary_call (srv request) ctx' now of
           None \<Rightarrow> None
         | Some (Inl err, t) \<Rightarrow> Some ((False, [], Some (''error stopping process: '' @ err)), t)
         | Some (Inr response, t) \<Rightarrow> Some ((Success response, Message response, None), t))"

subsection \<open>MonitorHealth\<close>

text \<open>\<^verbatim>\<open>ctx.Err()\<close>.\<close>

datatype ctx_err = NoErr | Canceled | DeadlineExceeded

text \<open>
  The \<^verbatim>\<open>select\<close> between a send on \<^verbatim>\<open>healthChan\<close> and \<^verbatim>\<open>ctx.Done()\<close>: the send is
  taken, the cancellation is taken, or neither ever becomes ready.
\<close>

datatype select_result = SendTaken | DoneTaken | NeitherEver

text \<open>
  What one iteration of the health loop meets: the context is done at the top of the loop;
  or \<^verbatim>\<open>Recv\<close> returns \<^verbatim>\<open>io.EOF\<close>; or another error, with what \<^verbatim>\<open>ctx.Err()\<close> then
  returns and how the \<^verbatim>\<open>select\<close> ends; or a frame, with how the \<^verbatim>\<open>select\<close> ends; or
  the iteration panics.
\<close>

datatype health_step =
    TopDone
  | HEOF
  | HRecvError string ctx_err select_result
  | HFrame HealthStatus select_result
  | HFault string

fun offer :: "'a \<Rightarrow> select_result \<Rightarrow> ('a gevent list \<times> bool)" where
  "offer x SendTaken = ([ChanSend x], True)"
| "offer x DoneTaken = ([SendAbandoned x], True)"
| "offer x NeitherEver = ([], False)"

fun health_loop :: "string \<Rightarrow> health_step list \<Rightarrow> HealthStatus gevent list \<times> loop_exit" where
  "health_loop processID [] = ([], Stuck)"
| "health_loop processID (TopDone # es) = ([], ContextDone)"
| "health_loop processID (HEOF # es) = ([], EndOfStream)"
| "health_loop processID (HFault v # es) = ([], Panicked v)"
| "health_loop processID (HRecvError err cerr sel # es) =
     (if cerr = Canceled then ([], ContextDone)
      else
        (let line = ''Error receiving response: '' @ err;
             st = \<lparr>hs_ProcessId = processID, hs_IsRunning = False, hs_Status = line,
                   hs_IsHealthy = False\<rparr>
         in case offer st sel of
              (tr, True) \<Rightarrow> (Log line # tr, ReceiveError err)
            | (tr, False) \<Rightarrow> (Log line # tr, Stuck)))"
| "health_loop processID (HFrame resp sel # es) =
     (case sel of
        SendTaken \<Rightarrow> (case health_loop processID es of (tr, x) \<Rightarrow> (ChanSend resp # tr, x))
      | DoneTaken \<Rightarrow> ([SendAbandoned resp], ContextDone)
      | NeitherEver \<Rightarrow> ([], Stuck))"

text \<open>The goroutine: the loop under its deferred function, which only recovers.\<close>

definition health_receiver :: "string \<Rightarrow> health_step list \<Rightarrow> HealthStatus gevent list \<times> loop_exit"
  where
  "health_receiver processID es =
     (case health_loop processID es of
        (tr, Panicked v) \<Rightarrow> (tr @ [Log (''Recovered in MonitorHealth: '' @ v)], Panicked v)
      | (tr, x) \<Rightarrow> (tr, x))"

definition MonitorHealth ::
  "health_step stream \<Rightarrow> string \<Rightarrow> int \<Rightarrow>
     string option \<times> HealthCheckRequest list \<times> (HealthStatus gevent list \<times> loop_exit) option"
  where
  "MonitorHealth st processID checkInterval =
     (case open_err st of
        Some err \<Rightarrow> (Some (''error creating stream: '' @ err), [], None)
      | None \<Rightarrow>
          (case send_err st of
             Some err \<Rightarrow> (Some (''error sending request: '' @ err), [], None)
           | None \<Rightarrow>
               (None, [\<lparr>hc_ProcessId = processID, hc_CheckInterval = checkInterval\<rparr>],
                Some (health_receiver processID (recvs st)))))"


section \<open>Reading the trace of a connection\<close>

text \<open>The frames whose write was issued, whether it succeeded or not, in order.\<close>

fun attempts :: "conn_event list \<Rightarrow> frame list" where
  "attempts [] = []"
| "attempts (Wrote f # es) = f # attempts es"
| "attempts (WriteFailed f # es) = f # attempts es"
| "attempts (ConnClosed # es) = attempts es"

definition envelope :: "string \<Rightarrow> string \<Rightarrow> frame" where
  "envelope action raw = JSONMessage \<lparr>Action = action, Payload = raw\<rparr>"

text \<open>A message that ends the relay of a task: the final message, a completion, an error.\<close>

fun is_terminal :: "frame \<Rightarrow> bool" where
  "is_terminal (JSONDone d) = True"
| "is_terminal (JSONMessage m) = (Action m = ''task_completed'' \<or> Action m = ''task_error'')"
| "is_terminal (CloseMessage c t) = False"
| "is_terminal PingMessage = False"

fun is_output :: "frame \<Rightarrow> bool" where
  "is_output (JSONMessage m) = (Action m = ''task_output'')"
| "is_output (JSONDone d) = False"
| "is_output (CloseMessage c t) = False"
| "is_output PingMessage = False"

text \<open>The response that both relays build from one output record.\<close>

definition output_response :: "'s env \<Rightarrow> string \<Rightarrow> 's ProcessOutput \<Rightarrow> TaskResponse" where
  "output_response e tid output =
     \<lparr>TaskID = tid, Status = Status_String e (po_Status output), Output = po_Output output,
      Error = [], IsError = po_IsError output, ExitCode = [], CompletedAt = []\<rparr>"

text \<open>The payload of an error envelope: the flag, the code and the message, nothing else.\<close>

definition error_response :: "string \<Rightarrow> string \<Rightarrow> TaskResponse" where
  "error_response code msg =
     \<lparr>TaskID = [], Status = [], Output = [], Error = msg, IsError = True, ExitCode = code,
      CompletedAt = []\<rparr>"

text \<open>
  Between the states \<open>s\<close> and \<open>s'\<close> the handler issued one write, of the envelope
  with this action whose payload is this response serialised, and did nothing else to the
  connection.
\<close>

definition envelope_sent :: "'s env \<Rightarrow> string \<Rightarrow> TaskResponse \<Rightarrow> St \<Rightarrow> St \<Rightarrow> bool" where
  "envelope_sent e action resp s s' =
     (case Marshal e (DataResponse resp) of
        None \<Rightarrow> False
      | Some raw \<Rightarrow>
          events (conn s') = events (conn s) @ [Wrote (envelope action raw)] \<or>
          events (conn s') = events (conn s) @ [WriteFailed (envelope action raw)])"

text \<open>The same for the \<^verbatim>\<open>task_error\<close> envelope that carries a code and a message.\<close>

definition task_error_sent :: "'s env \<Rightarrow> string \<Rightarrow> string \<Rightarrow> St \<Rightarrow> St \<Rightarrow> bool" where
  "task_error_sent e code msg s s' =
     envelope_sent e ''task_error'' (error_response code msg) s s'"

text \<open>
  The response of \<^verbatim>\<open>sendTaskCompletion\<close> for a task in state \<open>st\<close>, stamped \<open>at\<close>.
\<close>

definition completion_response :: "'s env \<Rightarrow> string \<Rightarrow> string \<Rightarrow> string \<Rightarrow> TaskResponse" where
  "completion_response e taskID st at =
     \<lparr>TaskID = taskID, Status = st, Output = [],
      Error = (if st = Completed e then [] else ''Task failed to complete''),
      IsError = False,
      ExitCode = (if st = Completed e then ''COMPLETED'' else ''1''),
      CompletedAt = at\<rparr>"

text \<open>The task-output frames that reached the client, and the terminal messages issued.\<close>

definition outputs_written :: "St \<Rightarrow> frame list" where
  "outputs_written s = filter is_output (written (events (conn s)))"

definition terminals :: "St \<Rightarrow> frame list" where
  "terminals s = filter is_terminal (attempts (events (conn s)))"

text \<open>What the serialisation of the responses of some output records returns.\<close>

definition payloads :: "'s env \<Rightarrow> string \<Rightarrow> 's ProcessOutput list \<Rightarrow> string option list" where
  "payloads e tid xs = map (\<lambda>x. Marshal e (DataResponse (output_response e tid x))) xs"

section \<open>Reading the trace of a receiver goroutine\<close>

text \<open>
  Whether the receiver loop of \<open>StartProcess\<close> ever ends: the stream yields an end, an
  error or a fault, and every frame before it is taken from the channel.
\<close>

fun loop_ends :: "'a recv list \<Rightarrow> bool" where
  "loop_ends [] = False"
| "loop_ends (Frame resp taken # es) = (taken \<and> loop_ends es)"
| "loop_ends (EOF # es) = True"
| "loop_ends (RecvError err # es) = True"
| "loop_ends (Fault v # es) = True"

text \<open>The record that \<open>MonitorHealth\<close> makes up from a receive error.\<close>

definition degraded :: "string \<Rightarrow> string \<Rightarrow> HealthStatus" where
  "degraded processID err =
     \<lparr>hs_ProcessId = processID, hs_IsRunning = False,
      hs_Status = ''Error receiving response: '' @ err, hs_IsHealthy = False\<rparr>"

section \<open>How far a relay gets\<close>

text \<open>
  The number of records a relay writes to the client before it stops, read off its inputs.
  \<open>relayed_count ps errs\<close>, for the relay of \<open>handleCreateTask\<close>: the leading records
  whose payload serialises (\<open>ps\<close> lists what the serialisations return) and whose write
  does not fail (\<open>errs\<close> lists the failures of the writes to come, one write per record).
\<close>

fun relayed_count :: "string option list \<Rightarrow> bool list \<Rightarrow> nat" where
  "relayed_count [] errs = 0"
| "relayed_count (p # ps) errs =
     (if p = None \<or> (errs \<noteq> [] \<and> hd errs) then 0
      else Suc (relayed_count ps (tl errs)))"

text \<open>
  \<open>streamed_count ps ctx_Done i errs\<close>, for \<open>streamTaskOutput\<close> from its \<open>i\<close>-th
  iteration on: each record takes two writes, its envelope and the ping, and a cancelled
  context ends the relay after the record just written.
\<close>

fun streamed_count :: "string option list \<Rightarrow> (nat \<Rightarrow> bool) \<Rightarrow> nat \<Rightarrow> bool list \<Rightarrow> nat" where
  "streamed_count [] ctx_Done i errs = 0"
| "streamed_count (p # ps) ctx_Done i errs =
     (if p = None \<or> (errs \<noteq> [] \<and> hd errs) then 0
      else if ctx_Done i then 1
      else Suc (streamed_count ps ctx_Done (Suc i) (tl (tl errs))))"

section \<open>Test doubles\<close>

text \<open>
  A stand-in for the JSON encoder, an executor whose answers are fixed, and a decoder that
  knows two payloads: one complete request and one without a name.
\<close>

definition enc :: "data \<Rightarrow> string" where
  "enc d =
     (case d of
        DataResponse r \<Rightarrow>
          TaskID r @ ''|'' @ Status r @ ''|'' @ Output r @ ''|'' @ Error r @ ''|''
            @ (if IsError r then ''true'' else ''false'') @ ''|'' @ ExitCode r @ ''|''
            @ CompletedAt r
      | DataTasks ts \<Rightarrow> concat (map task_ID ts))"

definition request :: "string \<Rightarrow> string \<Rightarrow> TaskRequest" where
  "request n i =
     \<lparr>Name = n, Image = i, Command = [''echo'', ''hi''], Env = [], WorkingDir = [],
      InstanceType = ''docker'', Timeout = 0\<rparr>"

definition test_env ::
  "(data \<Rightarrow> string option) \<Rightarrow> (string + string ProcessOutput chan) \<Rightarrow> (string + Task) \<Rightarrow> string env"
  where
  "test_env marshal added got =
     \<lparr>AddTask = (\<lambda>cs ctx t. added),
      StopTask = (\<lambda>cs tid. if tid = ''unknown'' then Some ''task not found'' else None),
      GetTask = (\<lambda>cs tid. got),
      GetTasks = (\<lambda>cs. Inl ''executor down''),
      Marshal = marshal,
      Unmarshal_TaskRequest =
        map_of [(''hello'', request ''hello'' ''demo''), (''noname'', request [] ''demo'')],
      Unmarshal_task_id = (\<lambda>p. if p = [] then None else Some p),
      uuid_New = (\<lambda>n. ''task-'' @ replicate n (CHR ''i'')),
      Now = int,
      Format_RFC3339 = (\<lambda>t. if t = 0 then ''T0'' else ''T1''),
      Status_String = id,
      FINISHED_String = ''FINISHED'',
      Scheduled = ''Scheduled'',
      Completed = ''Completed''\<rparr>"

definition out_rec :: "string \<Rightarrow> bool \<Rightarrow> string \<Rightarrow> string ProcessOutput" where
  "out_rec text err st = \<lparr>po_Output = text, po_IsError = err, po_Status = st\<rparr>"

text \<open>An encoder that fails on a response whose output is \<open>bad\<close>.\<close>

definition picky :: "data \<Rightarrow> string option" where
  "picky d =
     (case d of
        DataResponse r \<Rightarrow> if Output r = ''bad'' then None else Some (enc d)
      | DataTasks ts \<Rightarrow> Some (enc d))"

definition st0 :: "bool list \<Rightarrow> St" where
  "st0 errs = \<lparr>conn = \<lparr>events = [], write_errs = errs\<rparr>, calls = [], n_uuid = 0, n_now = 0\<rparr>"

definition a_task :: "string \<Rightarrow> Task" where
  "a_task st =
     \<lparr>task_ID = ''task-'', task_Name = ''hello'', task_State = st,
      task_WorkerSpec =
        \<lparr>spec_Type = ''docker'', spec_Image = ''demo'', spec_Command = [''echo'', ''hi''],
         spec_Env = [], spec_WorkingDir = []\<rparr>,
      task_CreatedAt = 0\<rparr>"

definition a_stream :: "'ev list \<Rightarrow> 'ev stream" where
  "a_stream es = \<lparr>open_err = None, send_err = None, close_send_err = None, recvs = es\<rparr>"

definition a_frame :: "string \<Rightarrow> pb_ProcessOutput" where
  "a_frame text = \<lparr>pb_process_id = ''p1'', pb_output = text, pb_is_error = False\<rparr>"

definition a_health :: "string \<Rightarrow> HealthStatus" where
  "a_health st =
     \<lparr>hs_ProcessId = ''p1'', hs_IsRunning = True, hs_Status = st, hs_IsHealthy = True\<rparr>"

definition a_request :: "string \<Rightarrow> Request" where
  "a_request origin =
     \<lparr>Origin = origin, Host = ''worker.internal'', handshake = True, req_Context = Background\<rparr>"

section \<open>Properties of the remote-process client\<close>

lemma earliest_le: "earliest a (Some d) = Some t \<Longrightarrow> t \<le> d"
  by (cases a) auto

lemma earliest_Some: "\<exists>t. earliest a (Some d) = Some t"
  by (cases a) auto

text \<open>
  C5. Every call of \<open>StopProcess\<close> returns, and returns no later than five seconds after it
  was made: whatever the caller's context is (with a deadline, with a cancel function, or
  neither) and whatever the server does (answer, fail, or stay silent for ever). The bound
  comes from the deadline that \<open>StopProcess\<close> itself puts on the context it hands to the
  call.
\<close>

theorem StopProcess_bounded:
  "\<exists>r t. StopProcess srv ctx now processID = Some (r, t) \<and> now \<le> t \<and> t \<le> now + 5 * Second"
proof -
  obtain t where t: "done_time (WithTimeout ctx now (5 * Second)) = Some t"
    using earliest_Some by (auto simp: WithTimeout_def)
  then have le: "t \<le> now + 5 * Second"
    using earliest_le by (auto simp: WithTimeout_def)
  show ?thesis
    using t le
    by (cases "srv \<lparr>stop_ProcessId = processID\<rparr>")
       (auto simp: StopProcess_def unary_call_def Let_def Second_def split: sum.splits)
qed

text \<open>
  A caller without any deadline and a server that never answers: the call returns an error
  exactly five seconds later.
\<close>

theorem StopProcess_bounded_witness:
  "StopProcess (\<lambda>rq. Silent) Background 0 ''p'' =
     Some ((False, [], Some ''error stopping process: rpc error: context done''), 5000000000)"
  using StopProcess_bounded [of "\<lambda>rq. Silent" Background 0 "''p''"]
  by (simp add: StopProcess_def unary_call_def WithTimeout_def Second_def context_error_def)

section \<open>Properties of the gateway\<close>

lemma attempts_append [simp]: "attempts (xs @ ys) = attempts xs @ attempts ys"
  by (induction xs rule: attempts.induct) auto

lemma written_append [simp]: "written (xs @ ys) = written xs @ written ys"
  by (induction xs rule: written.induct) auto

lemma conn_write_cases:
  "conn_write f c = (ok, c') \<Longrightarrow>
     events c' = events c @ [if ok then Wrote f else WriteFailed f] \<and>
     write_errs c' = tl (write_errs c)"
  by (auto simp: conn_write_def split: list.splits)

lemma conn_write_events:
  "events (snd (conn_write f c)) = events c @ [Wrote f] \<or>
   events (snd (conn_write f c)) = events c @ [WriteFailed f]"
  by (auto simp: conn_write_def split: list.splits)

lemma sendJSON_events:
  assumes "Marshal e d = Some raw"
  shows "events (conn (snd (sendJSON e action d s))) = events (conn s) @ [Wrote (envelope action raw)] \<or>
         events (conn (snd (sendJSON e action d s))) = events (conn s) @ [WriteFailed (envelope action raw)]"
  using assms conn_write_events [of "envelope action raw" "conn s"]
  by (auto simp: sendJSON_def envelope_def split: prod.splits)

lemma sendJSON_frame:
  "calls (snd (sendJSON e action d s)) = calls s \<and>
   n_uuid (snd (sendJSON e action d s)) = n_uuid s \<and>
   n_now (snd (sendJSON e action d s)) = n_now s"
  by (auto simp: sendJSON_def split: option.splits prod.splits)

lemma error_response_eq:
  "TaskResponse_zero\<lparr>IsError := True, ExitCode := code, Error := msg\<rparr> = error_response code msg"
  by (simp add: TaskResponse_zero_def error_response_def)

lemma sendError_sent:
  assumes "Marshal e (DataResponse (error_response code msg)) \<noteq> None" and "conn s1 = conn s"
  shows "task_error_sent e code msg s (sendError e code msg s1)"
proof -
  obtain raw where raw: "Marshal e (DataResponse (error_response code msg)) = Some raw"
    using assms(1) by auto
  show ?thesis
    using sendJSON_events [OF raw, of "''task_error''" s1] assms(2) raw
    by (simp add: task_error_sent_def envelope_sent_def sendError_def error_response_eq)
qed

lemma sendError_calls: "calls (sendError e code msg s) = calls s"
  by (simp add: sendError_def sendJSON_frame)

text \<open>
  C7. A \<^verbatim>\<open>create_task\<close> request whose decoded payload has an empty name or an empty
  image: the handler issues one write, of the \<^verbatim>\<open>task_error\<close> envelope with code
  \<^verbatim>\<open>validation_error\<close>, makes no call to the executor (so no \<open>AddTask\<close>), and returns;
  the connection is not closed and the read loop goes on to the next read. (The envelope is
  sent when its payload serialises, which \<^verbatim>\<open>json.Marshal\<close> of a \<^verbatim>\<open>TaskResponse\<close> does.)
\<close>

theorem create_task_validation_error:
  assumes "Unmarshal_TaskRequest e payload = Some req"
    and "Name req = [] \<or> Image req = []"
    and "Marshal e (DataResponse (error_response ''validation_error''
           ''Name and Image are required fields'')) \<noteq> None"
  shows "\<exists>s'. handleCreateTask e ctx payload s = (s', Returned) \<and>
           task_error_sent e ''validation_error'' ''Name and Image are required fields'' s s' \<and>
           calls s' = calls s \<and>
           read_loop e ctx (ReadMsg \<lparr>Action = ''create_task'', Payload = payload\<rparr> # rest) s =
             read_loop e ctx rest s'"
proof -
  let ?s' = "sendError e ''validation_error'' ''Name and Image are required fields'' s"
  have h: "handleCreateTask e ctx payload s = (?s', Returned)"
    using assms(1,2) by (auto simp: handleCreateTask_def)
  have sent: "task_error_sent e ''validation_error'' ''Name and Image are required fields'' s ?s'"
    using assms(3) by (rule sendError_sent) simp
  have loop: "read_loop e ctx (ReadMsg \<lparr>Action = ''create_task'', Payload = payload\<rparr> # rest) s =
             read_loop e ctx rest ?s'"
    using h by (simp add: dispatch_def)
  show ?thesis using h sent loop sendError_calls by blast
qed

theorem create_task_validation_error_witness:
  "handleCreateTask (test_env (Some \<circ> enc) (Inl ''unused'') (Inl ''unused'')) Background ''noname'' (st0 []) =
     (\<lparr>conn = \<lparr>events = [Wrote (envelope ''task_error''
                  (enc (DataResponse (error_response ''validation_error''
                     ''Name and Image are required fields''))))],
              write_errs = []\<rparr>,
       calls = [], n_uuid = 0, n_now = 0\<rparr>, Returned)"
proof -
  let ?e = "test_env (Some \<circ> enc) (Inl ''unused'') (Inl ''unused'') :: string env"
  have 1: "Unmarshal_TaskRequest ?e ''noname'' = Some (request [] ''demo'')"
    by (simp add: test_env_def)
  have 2: "Name (request [] ''demo'') = [] \<or> Image (request [] ''demo'') = []"
    by (simp add: request_def)
  have 3: "Marshal ?e (DataResponse (error_response ''validation_error''
           ''Name and Image are required fields'')) \<noteq> None"
    by (simp add: test_env_def)
  from create_task_validation_error [OF 1 2 3, of Background "st0 []" "[]"]
  obtain s' where s': "handleCreateTask ?e Background ''noname'' (st0 []) = (s', Returned)"
    and sent: "task_error_sent ?e ''validation_error'' ''Name and Image are required fields'' (st0 []) s'"
    and c: "calls s' = calls (st0 [])"
    by blast
  show ?thesis
    using s' sent c
    by (simp add: handleCreateTask_def test_env_def request_def sendError_def sendJSON_def
        conn_write_def st0_def envelope_def error_response_def TaskResponse_zero_def)
qed


lemma createTaskFromRequest_frame:
  "createTaskFromRequest e ctx req s = ((task, taskCtx), s1) \<Longrightarrow>
     conn s1 = conn s \<and> calls s1 = calls s"
  by (auto simp: createTaskFromRequest_def Let_def)

text \<open>
  C8. Each error that a handler recovers locally is surfaced as one \<^verbatim>\<open>task_error\<close>
  envelope whose payload is \<open>error_response code msg\<close>: the flag set, the exit code equal
  to the code string, the error equal to the message. The seven places: an undecodable
  task request, a missing name or image, a failing \<open>AddTask\<close>, an undecodable stop request,
  a failing \<open>StopTask\<close>, a failing \<open>GetTasks\<close>, and an action that is none of the three
  known ones; after the last the read loop goes on with the next read.
\<close>

theorem local_errors_are_task_error_envelopes:
  assumes M: "\<And>code msg. Marshal e (DataResponse (error_response code msg)) \<noteq> None"
  shows
    "(Unmarshal_TaskRequest e p1 = None \<longrightarrow>
        task_error_sent e ''invalid_request'' ''Error decoding task request'' s
          (fst (handleCreateTask e ctx p1 s))) \<and>
     (Unmarshal_TaskRequest e p2 = Some req2 \<and> (Name req2 = [] \<or> Image req2 = []) \<longrightarrow>
        task_error_sent e ''validation_error'' ''Name and Image are required fields'' s
          (fst (handleCreateTask e ctx p2 s))) \<and>
     (Unmarshal_TaskRequest e p3 = Some req3 \<and> Name req3 \<noteq> [] \<and> Image req3 \<noteq> [] \<and>
      createTaskFromRequest e ctx req3 s = ((task, taskCtx), s1) \<and>
      AddTask e (calls s) taskCtx task = Inl err3 \<longrightarrow>
        task_error_sent e ''create_error'' (''Error creating task: '' @ err3) s
          (fst (handleCreateTask e ctx p3 s))) \<and>
     (Unmarshal_task_id e p4 = None \<longrightarrow>
        task_error_sent e ''invalid_request'' ''Invalid task ID format'' s
          (handleStopTask e p4 s)) \<and>
     (Unmarshal_task_id e p5 = Some tid \<and> StopTask e (calls s) tid = Some err5 \<longrightarrow>
        task_error_sent e ''stop_error'' err5 s (handleStopTask e p5 s)) \<and>
     (GetTasks e (calls s) = Inl err6 \<longrightarrow>
        task_error_sent e ''list_error'' ''Error retrieving tasks'' s (handleListTasks e s)) \<and>
     (Action m \<noteq> ''create_task'' \<and> Action m \<noteq> ''stop_task'' \<and> Action m \<noteq> ''list_tasks'' \<longrightarrow>
        task_error_sent e ''unknown_action'' ''Unsupported action type'' s
          (fst (dispatch e ctx m s)) \<and>
        read_loop e ctx (ReadMsg m # rest) s = read_loop e ctx rest (fst (dispatch e ctx m s)))"
proof -
  note sent = sendError_sent [OF M]
  have c1: "Unmarshal_TaskRequest e p1 = None \<Longrightarrow>
        task_error_sent e ''invalid_request'' ''Error decoding task request'' s
          (fst (handleCreateTask e ctx p1 s))"
    by (simp add: handleCreateTask_def sent)
  have c2: "Unmarshal_TaskRequest e p2 = Some req2 \<Longrightarrow> Name req2 = [] \<or> Image req2 = [] \<Longrightarrow>
        task_error_sent e ''validation_error'' ''Name and Image are required fields'' s
          (fst (handleCreateTask e ctx p2 s))"
    by (auto simp: handleCreateTask_def sent)
  have c3: "Unmarshal_TaskRequest e p3 = Some req3 \<Longrightarrow> Name req3 \<noteq> [] \<Longrightarrow> Image req3 \<noteq> [] \<Longrightarrow>
      createTaskFromRequest e ctx req3 s = ((task, taskCtx), s1) \<Longrightarrow>
      AddTask e (calls s) taskCtx task = Inl err3 \<Longrightarrow>
        task_error_sent e ''create_error'' (''Error creating task: '' @ err3) s
          (fst (handleCreateTask e ctx p3 s))"
    using createTaskFromRequest_frame [of e ctx req3 s task taskCtx s1]
    by (simp add: handleCreateTask_def sent)
  have c4: "Unmarshal_task_id e p4 = None \<Longrightarrow>
        task_error_sent e ''invalid_request'' ''Invalid task ID format'' s
          (handleStopTask e p4 s)"
    by (simp add: handleStopTask_def sent)
  have c5: "Unmarshal_task_id e p5 = Some tid \<Longrightarrow> StopTask e (calls s) tid = Some err5 \<Longrightarrow>
        task_error_sent e ''stop_error'' err5 s (handleStopTask e p5 s)"
    by (simp add: handleStopTask_def sent)
  have c6: "GetTasks e (calls s) = Inl err6 \<Longrightarrow>
        task_error_sent e ''list_error'' ''Error retrieving tasks'' s (handleListTasks e s)"
    by (simp add: handleListTasks_def sent)
  have c7: "Action m \<noteq> ''create_task'' \<Longrightarrow> Action m \<noteq> ''stop_task'' \<Longrightarrow> Action m \<noteq> ''list_tasks'' \<Longrightarrow>
        task_error_sent e ''unknown_action'' ''Unsupported action type'' s
          (fst (dispatch e ctx m s)) \<and>
        read_loop e ctx (ReadMsg m # rest) s = read_loop e ctx rest (fst (dispatch e ctx m s))"
    by (simp add: dispatch_def sent)
  show ?thesis
    using c1 c2 c3 c4 c5 c6 c7 by blast
qed


theorem local_errors_are_task_error_envelopes_witness:
  "events (conn (fst (handleCreateTask (test_env (Some \<circ> enc) (Inl ''no capacity'') (Inl ''unused''))
      Background ''garbage'' (st0 [])))) =
     [Wrote (envelope ''task_error'' (enc (DataResponse
        (error_response ''invalid_request'' ''Error decoding task request''))))] \<and>
   events (conn (fst (handleCreateTask (test_env (Some \<circ> enc) (Inl ''no capacity'') (Inl ''unused''))
      Background ''noname'' (st0 [])))) =
     [Wrote (envelope ''task_error'' (enc (DataResponse
        (error_response ''validation_error'' ''Name and Image are required fields''))))] \<and>
   events (conn (fst (handleCreateTask (test_env (Some \<circ> enc) (Inl ''no capacity'') (Inl ''unused''))
      Background ''hello'' (st0 [])))) =
     [Wrote (envelope ''task_error'' (enc (DataResponse
        (error_response ''create_error'' ''Error creating task: no capacity''))))] \<and>
   events (conn (handleStopTask (test_env (Some \<circ> enc) (Inl ''no capacity'') (Inl ''unused''))
      [] (st0 []))) =
     [Wrote (envelope ''task_error'' (enc (DataResponse
        (error_response ''invalid_request'' ''Invalid task ID format''))))] \<and>
   events (conn (handleStopTask (test_env (Some \<circ> enc) (Inl ''no capacity'') (Inl ''unused''))
      ''unknown'' (st0 []))) =
     [Wrote (envelope ''task_error'' (enc (DataResponse
        (error_response ''stop_error'' ''task not found''))))] \<and>
   events (conn (handleListTasks (test_env (Some \<circ> enc) (Inl ''no capacity'') (Inl ''unused''))
      (st0 [True]))) =
     [WriteFailed (envelope ''task_error'' (enc (DataResponse
        (error_response ''list_error'' ''Error retrieving tasks''))))] \<and>
   read_loop (test_env (Some \<circ> enc) (Inl ''no capacity'') (Inl ''unused'')) Background
      [ReadMsg \<lparr>Action = ''dance'', Payload = []\<rparr>, ReadMsg \<lparr>Action = ''stop_task'', Payload = ''unknown''\<rparr>]
      (st0 []) =
     (\<lparr>conn = \<lparr>events =
         [Wrote (envelope ''task_error'' (enc (DataResponse
            (error_response ''unknown_action'' ''Unsupported action type'')))),
          Wrote (envelope ''task_error'' (enc (DataResponse
            (error_response ''stop_error'' ''task not found''))))],
         write_errs = []\<rparr>,
       calls = [StopTask_call ''unknown''], n_uuid = 0, n_now = 0\<rparr>, Blocked)"
proof -
  let ?e = "test_env (Some \<circ> enc) (Inl ''no capacity'') (Inl ''unused'') :: string env"
  have M: "\<And>code msg. Marshal ?e (DataResponse (error_response code msg)) \<noteq> None"
    by (simp add: test_env_def)
  note T = local_errors_are_task_error_envelopes [OF M,
      of "''garbage''" "st0 []" Background "''noname''" "request [] ''demo''"
         "''hello''" "request ''hello'' ''demo''"]
  show ?thesis
    using T
    by (simp add: handleCreateTask_def handleStopTask_def handleListTasks_def dispatch_def
        createTaskFromRequest_def test_env_def request_def sendError_def sendJSON_def
        conn_write_def st0_def envelope_def error_response_eq Let_def)
qed

lemma relay_frame:
  "relay e tid xs s = (b, s') \<Longrightarrow>
     calls s' = calls s \<and> n_uuid s' = n_uuid s \<and> n_now s' = n_now s"
proof (induction xs arbitrary: s)
  case Nil
  then show ?case by simp
next
  case (Cons x xs)
  then show ?case
    by (auto simp: Let_def split: option.splits prod.splits bool.splits)
qed

lemma output_response_eq:
  "TaskResponse_zero\<lparr>TaskID := tid, Output := po_Output x, IsError := po_IsError x,
      Status := Status_String e (po_Status x)\<rparr> = output_response e tid x"
  by (simp add: TaskResponse_zero_def output_response_def)

lemma relay_Cons:
  "relay e tid (x # rest) s =
     (case Marshal e (DataResponse (output_response e tid x)) of
        None \<Rightarrow> (False, s)
      | Some p \<Rightarrow>
          (case conn_write (envelope ''task_output'' p) (conn s) of
             (False, c) \<Rightarrow> (False, s\<lparr>conn := c\<rparr>)
           | (True, c) \<Rightarrow> relay e tid rest (s\<lparr>conn := c\<rparr>)))"
  by (simp add: output_response_eq envelope_def Let_def split: option.splits)

lemma relay_shape:
  "relay e tid xs s = (b, s') \<Longrightarrow>
     \<exists>n ps. n \<le> length xs \<and>
       map (\<lambda>x. Marshal e (DataResponse (output_response e tid x))) (take n xs) = map Some ps \<and>
       attempts (events (conn s')) = attempts (events (conn s)) @ map (envelope ''task_output'') ps \<and>
       (b \<longrightarrow> n = length xs \<and>
          events (conn s') = events (conn s) @ map (\<lambda>p. Wrote (envelope ''task_output'' p)) ps)"
proof (induction xs arbitrary: s)
  case Nil
  then show ?case by simp
next
  case (Cons x xs)
  show ?case
  proof (cases "Marshal e (DataResponse (output_response e tid x))")
    case None
    with Cons.prems have "b = False" "s' = s" by (simp_all add: relay_Cons del: relay.simps)
    then show ?thesis by (intro exI [of _ 0] exI [of _ "[]"]) simp
  next
    case (Some p)
    obtain ok c where w: "conn_write (envelope ''task_output'' p) (conn s) = (ok, c)"
      by (cases "conn_write (envelope ''task_output'' p) (conn s)")
    from conn_write_cases [OF w]
    have ev: "events c = events (conn s) @ [if ok then Wrote (envelope ''task_output'' p)
                else WriteFailed (envelope ''task_output'' p)]" by simp
    show ?thesis
    proof (cases ok)
      case False
      with Cons.prems Some w have "b = False" "s' = s\<lparr>conn := c\<rparr>" by (simp_all add: relay_Cons del: relay.simps)
      then show ?thesis
        using ev False Some
        by (intro exI [of _ 1] exI [of _ "[p]"]) simp
    next
      case True
      with Cons.prems Some w have r: "relay e tid xs (s\<lparr>conn := c\<rparr>) = (b, s')"
        by (simp add: relay_Cons del: relay.simps)
      from Cons.IH [OF r] obtain n ps where
        n: "n \<le> length xs" and
        m: "map (\<lambda>x. Marshal e (DataResponse (output_response e tid x))) (take n xs) = map Some ps" and
        a: "attempts (events (conn s')) = attempts (events c) @ map (envelope ''task_output'') ps" and
        f: "b \<longrightarrow> n = length xs \<and>
          events (conn s') = events c @ map (\<lambda>p. Wrote (envelope ''task_output'' p)) ps"
        by auto
      show ?thesis
        using n m a f ev True Some
        by (intro exI [of _ "Suc n"] exI [of _ "p # ps"]) simp
    qed
  qed
qed

lemma relay_append_fail:
  "Marshal e (DataResponse (output_response e tid x)) = None \<Longrightarrow>
     relay e tid (pre @ x # post) s = (False, snd (relay e tid pre s))"
proof (induction pre arbitrary: s)
  case Nil
  then show ?case by (simp add: relay_Cons del: relay.simps(2))
next
  case (Cons y pre)
  then show ?case
    by (simp add: relay_Cons del: relay.simps(2) split: option.splits prod.splits bool.splits)
qed

text \<open>
  C10. In the relay of \<open>handleCreateTask\<close>, when the serialisation of an output record
  \<open>x\<close> fails, the handler returns: every write it issued is the \<^verbatim>\<open>task_output\<close>
  envelope of a record that came before \<open>x\<close>, in the order of the channel. So nothing is
  written for \<open>x\<close> or for the records after it, no error envelope is sent and no terminal
  message is. The only call to the executor is the \<open>AddTask\<close>.
\<close>

theorem marshal_failure_ends_relay_silently:
  assumes "Unmarshal_TaskRequest e payload = Some req"
    and "Name req \<noteq> []" and "Image req \<noteq> []"
    and "createTaskFromRequest e ctx req s = ((task, taskCtx), s1)"
    and "AddTask e (calls s) taskCtx task = Inr outputChan"
    and "items outputChan = pre @ x # post"
    and "Marshal e (DataResponse (output_response e (task_ID task) x)) = None"
  shows "\<exists>s' n ps. handleCreateTask e ctx payload s = (s', Returned) \<and>
           n \<le> length pre \<and>
           map (\<lambda>y. Marshal e (DataResponse (output_response e (task_ID task) y))) (take n pre) =
             map Some ps \<and>
           attempts (events (conn s')) =
             attempts (events (conn s)) @ map (envelope ''task_output'') ps \<and>
           calls s' = calls s @ [AddTask_call taskCtx task]"
proof -
  let ?s2 = "s1\<lparr>calls := calls s1 @ [AddTask_call taskCtx task]\<rparr>"
  let ?s' = "snd (relay e (task_ID task) pre ?s2)"
  from createTaskFromRequest_frame [OF assms(4)]
  have fr: "conn s1 = conn s" "calls s1 = calls s" by simp_all
  have r: "relay e (task_ID task) (items outputChan) ?s2 = (False, ?s')"
    using assms(6,7) by (simp add: relay_append_fail)
  have h: "handleCreateTask e ctx payload s = (?s', Returned)"
    using assms(1-5) fr r by (simp add: handleCreateTask_def)
  obtain b where b: "relay e (task_ID task) pre ?s2 = (b, ?s')"
    by (cases "relay e (task_ID task) pre ?s2") simp
  from relay_shape [OF b] obtain n ps where
    n: "n \<le> length pre" and
    m: "map (\<lambda>y. Marshal e (DataResponse (output_response e (task_ID task) y))) (take n pre) =
             map Some ps" and
    a: "attempts (events (conn ?s')) = attempts (events (conn ?s2)) @ map (envelope ''task_output'') ps"
    by auto
  have c: "calls ?s' = calls s @ [AddTask_call taskCtx task]"
    using relay_frame [OF b] fr by simp
  show ?thesis
    using h n m a c fr by (intro exI [of _ ?s'] exI [of _ n] exI [of _ ps]) simp
qed


text \<open>Three records, the second of which does not serialise: only the first is written.\<close>

theorem marshal_failure_ends_relay_silently_witness:
  "handleCreateTask
     (test_env picky
        (Inr \<lparr>items = [out_rec ''one'' False ''RUNNING'', out_rec ''bad'' False ''RUNNING'',
                        out_rec ''three'' False ''RUNNING''], closes = True\<rparr>)
        (Inl ''unused''))
     Background ''hello'' (st0 []) =
   (\<lparr>conn = \<lparr>events = [Wrote (envelope ''task_output'' ''task-|RUNNING|one||false||'')],
             write_errs = []\<rparr>,
      calls = [AddTask_call (WithCancel Background None) (a_task ''Scheduled'')],
      n_uuid = 1, n_now = 1\<rparr>, Returned)"
proof -
  let ?ch = "\<lparr>items = [out_rec ''one'' False ''RUNNING'', out_rec ''bad'' False ''RUNNING'',
                        out_rec ''three'' False ''RUNNING''], closes = True\<rparr>"
  let ?e = "test_env picky (Inr ?ch) (Inl ''unused'') :: string env"
  let ?s1 = "\<lparr>conn = \<lparr>events = [], write_errs = []\<rparr>, calls = [], n_uuid = 1, n_now = 1\<rparr>"
  have 1: "Unmarshal_TaskRequest ?e ''hello'' = Some (request ''hello'' ''demo'')"
    by (simp add: test_env_def)
  have 2: "Name (request ''hello'' ''demo'') \<noteq> []" and 3: "Image (request ''hello'' ''demo'') \<noteq> []"
    by (simp_all add: request_def)
  have 4: "createTaskFromRequest ?e Background (request ''hello'' ''demo'') (st0 []) =
             ((a_task ''Scheduled'', WithCancel Background None), ?s1)"
    by (simp add: createTaskFromRequest_def test_env_def request_def st0_def a_task_def)
  have 5: "AddTask ?e (calls (st0 [])) (WithCancel Background None) (a_task ''Scheduled'') = Inr ?ch"
    by (simp add: test_env_def)
  have 6: "items ?ch = [out_rec ''one'' False ''RUNNING''] @ out_rec ''bad'' False ''RUNNING'' #
             [out_rec ''three'' False ''RUNNING'']"
    by simp
  have 7: "Marshal ?e (DataResponse (output_response ?e (task_ID (a_task ''Scheduled''))
             (out_rec ''bad'' False ''RUNNING''))) = None"
    by (simp add: test_env_def picky_def output_response_def out_rec_def)
  from marshal_failure_ends_relay_silently [OF 1 2 3 4 5 6 7]
  obtain s' where s': "handleCreateTask ?e Background ''hello'' (st0 []) = (s', Returned)"
    by blast
  have "relay ?e ''task-'' (items ?ch) (?s1\<lparr>calls := [AddTask_call (WithCancel Background None) (a_task ''Scheduled'')]\<rparr>) =
     (False, \<lparr>conn = \<lparr>events = [Wrote (envelope ''task_output'' ''task-|RUNNING|one||false||'')],
             write_errs = []\<rparr>,
      calls = [AddTask_call (WithCancel Background None) (a_task ''Scheduled'')],
      n_uuid = 1, n_now = 1\<rparr>)"
    by (simp add: test_env_def picky_def enc_def out_rec_def conn_write_def envelope_def
        TaskResponse_zero_def Let_def)
  then show ?thesis
    using s' 1 2 3 4 5
    by (simp add: handleCreateTask_def a_task_def st0_def)
qed


text \<open>
  C2. The claim fails on the code: the message that follows the relay of
  \<open>handleCreateTask\<close> is a constant. Here the only record of the task is an error in
  status \<open>FAILED\<close> and the executor reports the task in state \<open>Failed\<close>, which is not
  \<open>Completed\<close>; the handler still writes \<^verbatim>\<open>Process completed successfully\<close> with exit
  code \<open>0\<close>, and never asks the executor for the state.
\<close>

theorem create_task_reports_success_for_failed_task:
  "handleCreateTask
     (test_env (Some \<circ> enc) (Inr \<lparr>items = [out_rec ''boom'' True ''FAILED''], closes = True\<rparr>)
        (Inr (a_task ''Failed'')))
     Background ''hello'' (st0 []) =
   (\<lparr>conn = \<lparr>events =
        [Wrote (envelope ''task_output'' ''task-|FAILED|boom||true||''),
         Wrote (JSONDone \<lparr>dm_done = True, dm_exit_code = 0,
                  dm_message = ''Process completed successfully'', dm_status = ''FINISHED''\<rparr>),
         Wrote (CloseMessage 1000 ''Process finished'')],
        write_errs = []\<rparr>,
      calls = [AddTask_call (WithCancel Background None) (a_task ''Scheduled'')],
      n_uuid = 1, n_now = 1\<rparr>, Returned) \<and>
   GetTask (test_env (Some \<circ> enc)
        (Inr \<lparr>items = [out_rec ''boom'' True ''FAILED''], closes = True\<rparr>) (Inr (a_task ''Failed'')))
     [AddTask_call (WithCancel Background None) (a_task ''Scheduled'')] ''task-'' =
     Inr (a_task ''Failed'') \<and>
   task_State (a_task ''Failed'') \<noteq>
     Completed (test_env (Some \<circ> enc)
        (Inr \<lparr>items = [out_rec ''boom'' True ''FAILED''], closes = True\<rparr>) (Inr (a_task ''Failed'')))"
  by (simp add: handleCreateTask_def createTaskFromRequest_def test_env_def request_def
      st0_def a_task_def out_rec_def enc_def conn_write_def envelope_def send_done_def doneMsg_def
      CloseNormalClosure_def TaskResponse_zero_def Let_def)

lemma completion_response_eq:
  "(if st = Completed e
    then TaskResponse_zero\<lparr>TaskID := taskID, Status := st, CompletedAt := at\<rparr>
           \<lparr>ExitCode := ''COMPLETED''\<rparr>
    else TaskResponse_zero\<lparr>TaskID := taskID, Status := st, CompletedAt := at\<rparr>
           \<lparr>ExitCode := ''1'', Error := ''Task failed to complete''\<rparr>) =
   completion_response e taskID st at"
  by (simp add: TaskResponse_zero_def completion_response_def)

lemma envelope_sent_sendJSON:
  assumes "Marshal e (DataResponse r) \<noteq> None" and "conn s1 = conn s"
  shows "envelope_sent e action r s (snd (sendJSON e action (DataResponse r) s1))"
proof -
  obtain raw where raw: "Marshal e (DataResponse r) = Some raw"
    using assms(1) by auto
  show ?thesis
    using sendJSON_events [OF raw, of action s1] assms(2) raw
    by (simp add: envelope_sent_def)
qed

lemma sendTaskCompletion_calls:
  "calls (sendTaskCompletion e taskID s) = calls s @ [GetTask_call taskID]"
  by (simp add: sendTaskCompletion_def Let_def sendError_calls sendJSON_frame split: sum.splits)

lemma sendTaskCompletion_Inr:
  assumes "GetTask e (calls s) taskID = Inr task"
    and "\<And>r. Marshal e (DataResponse r) \<noteq> None"
  shows "envelope_sent e ''task_completed''
           (completion_response e taskID (task_State task) (Format_RFC3339 e (Now e (n_now s))))
           s (sendTaskCompletion e taskID s)"
  using assms(1)
  by (simp add: sendTaskCompletion_def Let_def completion_response_eq
      envelope_sent_sendJSON [OF assms(2)])

lemma sendTaskCompletion_Inl:
  assumes "GetTask e (calls s) taskID = Inl err"
    and "\<And>r. Marshal e (DataResponse r) \<noteq> None"
  shows "task_error_sent e ''task_error'' (''Error getting task status: '' @ err)
           s (sendTaskCompletion e taskID s)"
  using assms(1)
  by (simp add: sendTaskCompletion_def Let_def sendError_sent [OF assms(2)])

text \<open>
  C3, as amended. Whenever the loop of \<open>streamTaskOutput\<close> ends (the channel is closed, a
  send failed, or the context was cancelled), the function returns after one call of
  \<open>GetTask\<close>. When that call succeeds it sends one \<^verbatim>\<open>task_completed\<close> envelope
  carrying the task's state, with exit code \<^verbatim>\<open>COMPLETED\<close> when the state is
  \<open>Completed\<close> and otherwise exit code \<^verbatim>\<open>1\<close> and the error
  \<^verbatim>\<open>Task failed to complete\<close>. When the call fails it sends, instead, one
  \<^verbatim>\<open>task_error\<close> envelope with code \<^verbatim>\<open>task_error\<close> and the error's text.
\<close>

theorem streamTaskOutput_completion:
  assumes "stream_loop e ctx_Done taskID 0 (items outputChan) s = (x, s1)"
    and "closes outputChan \<or> x \<noteq> ChannelDrained"
    and "\<And>r. Marshal e (DataResponse r) \<noteq> None"
  shows "\<exists>s'. streamTaskOutput e ctx_Done taskID outputChan s = (s', Returned) \<and>
           calls s' = calls s1 @ [GetTask_call taskID] \<and>
           (\<forall>task. GetTask e (calls s1) taskID = Inr task \<longrightarrow>
              envelope_sent e ''task_completed''
                (completion_response e taskID (task_State task)
                   (Format_RFC3339 e (Now e (n_now s1)))) s1 s') \<and>
           (\<forall>err. GetTask e (calls s1) taskID = Inl err \<longrightarrow>
              task_error_sent e ''task_error'' (''Error getting task status: '' @ err) s1 s')"
proof -
  have "streamTaskOutput e ctx_Done taskID outputChan s =
          (sendTaskCompletion e taskID s1, Returned)"
    using assms(1,2) by (cases x) (auto simp: streamTaskOutput_def)
  then show ?thesis
    using sendTaskCompletion_calls [of e taskID s1]
      sendTaskCompletion_Inr [OF _ assms(3), of s1 taskID]
      sendTaskCompletion_Inl [OF _ assms(3), of s1 taskID]
    by auto
qed

text \<open>
  C3 as stated fails: when \<open>GetTask\<close> returns an error, what is sent is a
  \<^verbatim>\<open>task_error\<close> envelope, not a \<^verbatim>\<open>task_completed\<close> one.
\<close>

theorem streamTaskOutput_completion_counterexample:
  "streamTaskOutput (test_env (Some \<circ> enc) (Inl ''unused'') (Inl ''task not found''))
     (\<lambda>i. False) ''t1'' \<lparr>items = [], closes = True\<rparr> (st0 []) =
   (\<lparr>conn = \<lparr>events = [Wrote (envelope ''task_error''
        (enc (DataResponse (error_response ''task_error''
           ''Error getting task status: task not found''))))],
        write_errs = []\<rparr>,
      calls = [GetTask_call ''t1''], n_uuid = 0, n_now = 0\<rparr>, Returned)"
  by (simp add: streamTaskOutput_def sendTaskCompletion_def sendError_def sendJSON_def
      conn_write_def test_env_def st0_def envelope_def error_response_eq Let_def)


text \<open>
  A completed task whose channel closes, and a failed task whose context is cancelled after
  the first record.
\<close>

theorem streamTaskOutput_completion_witness:
  "streamTaskOutput (test_env (Some \<circ> enc) (Inl ''unused'') (Inr (a_task ''Completed'')))
     (\<lambda>i. False) ''task-'' \<lparr>items = [out_rec ''hi'' False ''RUNNING''], closes = True\<rparr> (st0 []) =
   (\<lparr>conn = \<lparr>events =
        [Wrote (envelope ''task_output'' ''task-|RUNNING|hi||false||''),
         Wrote PingMessage,
         Wrote (envelope ''task_completed'' ''task-|Completed|||false|COMPLETED|T0'')],
        write_errs = []\<rparr>,
      calls = [GetTask_call ''task-''], n_uuid = 0, n_now = 1\<rparr>, Returned) \<and>
   streamTaskOutput (test_env (Some \<circ> enc) (Inl ''unused'') (Inr (a_task ''Failed'')))
     (\<lambda>i. True) ''task-''
     \<lparr>items = [out_rec ''hi'' False ''RUNNING'', out_rec ''ho'' False ''RUNNING''], closes = False\<rparr>
     (st0 []) =
   (\<lparr>conn = \<lparr>events =
        [Wrote (envelope ''task_output'' ''task-|RUNNING|hi||false||''),
         Wrote (envelope ''task_completed'' ''task-|Failed||Task failed to complete|false|1|T0'')],
        write_errs = []\<rparr>,
      calls = [StopTask_call ''task-'', GetTask_call ''task-''], n_uuid = 0, n_now = 1\<rparr>,
    Returned)"
proof -
  let ?e = "test_env (Some \<circ> enc) (Inl ''unused'') (Inr (a_task ''Completed'')) :: string env"
  let ?ch = "\<lparr>items = [out_rec ''hi'' False ''RUNNING''], closes = True\<rparr>"
  let ?s1 = "\<lparr>conn = \<lparr>events = [Wrote (envelope ''task_output'' ''task-|RUNNING|hi||false||''),
                 Wrote PingMessage], write_errs = []\<rparr>,
             calls = [], n_uuid = 0, n_now = 0\<rparr>"
  have 1: "stream_loop ?e (\<lambda>i. False) ''task-'' 0 (items ?ch) (st0 []) = (ChannelDrained, ?s1)"
    by (simp add: test_env_def sendJSON_def conn_write_def st0_def out_rec_def enc_def
        envelope_def TaskResponse_zero_def)
  have 2: "closes ?ch \<or> ChannelDrained \<noteq> ChannelDrained"
    by simp
  have 3: "\<And>r. Marshal ?e (DataResponse r) \<noteq> None"
    by (simp add: test_env_def)
  from streamTaskOutput_completion [OF 1 2 3]
  obtain s' where s': "streamTaskOutput ?e (\<lambda>i. False) ''task-'' ?ch (st0 []) = (s', Returned)"
    and sent: "\<forall>task. GetTask ?e (calls ?s1) ''task-'' = Inr task \<longrightarrow>
              envelope_sent ?e ''task_completed''
                (completion_response ?e ''task-'' (task_State task)
                   (Format_RFC3339 ?e (Now ?e (n_now ?s1)))) ?s1 s'"
    by blast
  show ?thesis
    using s' sent
    by (simp add: streamTaskOutput_def sendTaskCompletion_def sendJSON_def conn_write_def
        test_env_def st0_def out_rec_def enc_def a_task_def envelope_def TaskResponse_zero_def
        Let_def)
qed

section \<open>Properties of the receiver goroutines and of the upgrade\<close>

lemma receive_loop_no_close: "ChanClose \<notin> set (fst (receive_loop es))"
  by (induction es rule: receive_loop.induct) (auto split: prod.splits)

lemma receive_loop_ends: "(snd (receive_loop es) \<noteq> Stuck) = loop_ends es"
  by (induction es rule: receive_loop.induct) (auto split: prod.splits)

lemma receiver_closes_once:
  assumes "receiver es = (tr, x)"
  shows "(x \<noteq> Stuck) = loop_ends es \<and>
         (x \<noteq> Stuck \<longrightarrow> (\<exists>tr0. tr = tr0 @ [ChanClose] \<and> ChanClose \<notin> set tr0)) \<and>
         (x = Stuck \<longrightarrow> ChanClose \<notin> set tr)"
proof -
  obtain tr1 x1 where l: "receive_loop es = (tr1, x1)"
    by (cases "receive_loop es")
  have nc: "ChanClose \<notin> set tr1"
    using receive_loop_no_close [of es] l by simp
  have e: "(x1 \<noteq> Stuck) = loop_ends es"
    using receive_loop_ends [of es] l by simp
  show ?thesis
    using assms l nc e
    by (cases x1) (auto simp: receiver_def)
qed

text \<open>
  C4. After a successful \<open>StartProcess\<close> the receiver goroutine runs, and on every path
  on which its loop ends (end of stream, receive error, recovered panic) it closes the
  output channel exactly once, as its last action: the trace is some events without a
  close, then one close. The loop ends exactly when the stream yields one of the three while
  every frame before it is taken from the channel; while it does not end, the channel is
  not closed.
\<close>

theorem StartProcess_closes_channel_once:
  assumes "StartProcess st processID command environ workingDir = (None, sent, g)"
  shows "\<exists>tr x. g = Some (tr, x) \<and>
           (x \<noteq> Stuck) = loop_ends (recvs st) \<and>
           (x \<noteq> Stuck \<longrightarrow> (\<exists>tr0. tr = tr0 @ [ChanClose] \<and> ChanClose \<notin> set tr0)) \<and>
           (x = Stuck \<longrightarrow> ChanClose \<notin> set tr)"
proof -
  have g: "g = Some (receiver (recvs st))"
    using assms by (auto simp: StartProcess_def Let_def split: option.splits)
  obtain tr x where r: "receiver (recvs st) = (tr, x)"
    by (cases "receiver (recvs st)")
  show ?thesis
    using g r receiver_closes_once [OF r] by simp
qed

text \<open>The three exits, and a stream that stays silent after its first frame.\<close>

theorem StartProcess_closes_channel_once_witness:
  "StartProcess (a_stream [Frame (a_frame ''hi'') True, EOF]) ''p1'' [''echo'', ''hi''] [] [] =
     (None,
      [\<lparr>psr_ProcessId = ''p1'', psr_Command = [''echo'', ''hi''], psr_Environment = [],
         psr_WorkingDirectory = []\<rparr>],
      Some ([ChanSend (a_frame ''hi''), ChanClose], EndOfStream)) \<and>
   snd (snd (StartProcess (a_stream [Frame (a_frame ''hi'') True, RecvError ''reset''])
      ''p1'' [''echo'', ''hi''] [] [])) =
     Some ([ChanSend (a_frame ''hi''), Log ''Error receiving response: reset'', ChanClose],
           ReceiveError ''reset'') \<and>
   snd (snd (StartProcess (a_stream [Frame (a_frame ''hi'') True, Fault ''nil map''])
      ''p1'' [''echo'', ''hi''] [] [])) =
     Some ([ChanSend (a_frame ''hi''), Log ''Recovered in StartProcess: nil map'', ChanClose],
           Panicked ''nil map'') \<and>
   snd (snd (StartProcess (a_stream [Frame (a_frame ''hi'') True])
      ''p1'' [''echo'', ''hi''] [] [])) =
     Some ([ChanSend (a_frame ''hi'')], Stuck)"
proof -
  let ?rq = "\<lparr>psr_ProcessId = ''p1'', psr_Command = [''echo'', ''hi''], psr_Environment = [],
         psr_WorkingDirectory = []\<rparr>"
  have 1: "StartProcess (a_stream [Frame (a_frame ''hi'') True, EOF]) ''p1'' [''echo'', ''hi''] [] [] =
     (None, [?rq], Some ([ChanSend (a_frame ''hi''), ChanClose], EndOfStream))"
    by (simp add: StartProcess_def a_stream_def receiver_def)
  from StartProcess_closes_channel_once [OF 1]
  have "\<exists>tr0. [ChanSend (a_frame ''hi''), ChanClose] = tr0 @ [ChanClose] \<and> ChanClose \<notin> set tr0"
    by simp
  then show ?thesis
    using 1 by (simp add: StartProcess_def a_stream_def receiver_def)
qed

lemma health_loop_frames:
  "health_loop pid (map (\<lambda>r. HFrame r SendTaken) rs @ es) =
     (map ChanSend rs @ fst (health_loop pid es), snd (health_loop pid es))"
  by (induction rs) (auto split: prod.splits)

text \<open>
  C6, as amended. When \<^verbatim>\<open>Recv\<close> returns an error other than the end of the stream and
  \<^verbatim>\<open>ctx.Err()\<close> is not \<^verbatim>\<open>context.Canceled\<close>, the goroutine logs the error, makes up the
  record \<open>degraded processID err\<close> (not running, status
  \<^verbatim>\<open>Error receiving response: <err>\<close>) and offers it on the health channel in a
  \<^verbatim>\<open>select\<close> against the context: it is delivered, or abandoned when the context is done
  first, and the loop ends either way; it waits only as long as neither happens. When
  \<^verbatim>\<open>ctx.Err()\<close> is \<^verbatim>\<open>context.Canceled\<close> the goroutine returns silently: no record is
  made up and nothing is offered.
\<close>

theorem MonitorHealth_receive_error:
  assumes "open_err st = None" and "send_err st = None"
    and "recvs st = map (\<lambda>r. HFrame r SendTaken) rs @ HRecvError err cerr sel # rest"
  shows
    "(cerr \<noteq> Canceled \<and> sel = SendTaken \<longrightarrow>
        snd (snd (MonitorHealth st processID checkInterval)) =
          Some (map ChanSend rs @
                  [Log (''Error receiving response: '' @ err), ChanSend (degraded processID err)],
                ReceiveError err)) \<and>
     (cerr \<noteq> Canceled \<and> sel = DoneTaken \<longrightarrow>
        snd (snd (MonitorHealth st processID checkInterval)) =
          Some (map ChanSend rs @
                  [Log (''Error receiving response: '' @ err),
                   SendAbandoned (degraded processID err)],
                ReceiveError err)) \<and>
     (cerr \<noteq> Canceled \<and> sel = NeitherEver \<longrightarrow>
        snd (snd (MonitorHealth st processID checkInterval)) =
          Some (map ChanSend rs @ [Log (''Error receiving response: '' @ err)], Stuck)) \<and>
     (cerr = Canceled \<longrightarrow>
        snd (snd (MonitorHealth st processID checkInterval)) =
          Some (map ChanSend rs, ContextDone))"
  using assms
  by (cases sel)
     (auto simp: MonitorHealth_def health_receiver_def health_loop_frames degraded_def Let_def)

text \<open>
  C6 as stated fails: a receive error under a cancelled context ends the goroutine with
  nothing sent or offered on the health channel.
\<close>

theorem MonitorHealth_receive_error_counterexample:
  "MonitorHealth (a_stream [HRecvError ''rpc error: code = Canceled'' Canceled SendTaken]) ''p1'' 5 =
     (None, [\<lparr>hc_ProcessId = ''p1'', hc_CheckInterval = 5\<rparr>], Some ([], ContextDone))"
  by (simp add: MonitorHealth_def a_stream_def health_receiver_def)

text \<open>
  A reset after one healthy frame, delivered; and an error under an expired deadline, where
  the context wins the \<^verbatim>\<open>select\<close>.
\<close>

theorem MonitorHealth_receive_error_witness:
  "MonitorHealth (a_stream [HFrame (a_health ''ok'') SendTaken,
       HRecvError ''connection reset'' NoErr SendTaken]) ''p1'' 5 =
     (None, [\<lparr>hc_ProcessId = ''p1'', hc_CheckInterval = 5\<rparr>],
      Some ([ChanSend (a_health ''ok''), Log ''Error receiving response: connection reset'',
             ChanSend \<lparr>hs_ProcessId = ''p1'', hs_IsRunning = False,
                       hs_Status = ''Error receiving response: connection reset'',
                       hs_IsHealthy = False\<rparr>],
            ReceiveError ''connection reset'')) \<and>
   snd (snd (MonitorHealth (a_stream [HRecvError ''deadline'' DeadlineExceeded DoneTaken]) ''p1'' 5)) =
     Some ([Log ''Error receiving response: deadline'',
            SendAbandoned (degraded ''p1'' ''deadline'')], ReceiveError ''deadline'')"
proof -
  let ?st = "a_stream [HFrame (a_health ''ok'') SendTaken,
       HRecvError ''connection reset'' NoErr SendTaken]"
  have 1: "open_err ?st = None" and 2: "send_err ?st = None"
    by (simp_all add: a_stream_def)
  have 3: "recvs ?st = map (\<lambda>r. HFrame r SendTaken) [a_health ''ok''] @
             HRecvError ''connection reset'' NoErr SendTaken # []"
    by (simp add: a_stream_def)
  from MonitorHealth_receive_error [OF 1 2 3, of "''p1''" 5]
  have "snd (snd (MonitorHealth ?st ''p1'' 5)) =
          Some (map ChanSend [a_health ''ok''] @
                  [Log (''Error receiving response: '' @ ''connection reset''),
                   ChanSend (degraded ''p1'' ''connection reset'')],
                ReceiveError ''connection reset'')"
    by simp
  then show ?thesis
    by (simp add: MonitorHealth_def a_stream_def health_receiver_def degraded_def Let_def)
qed

text \<open>
  C9. The claim fails on the code. The predicate of the upgrader accepts every request, and
  nothing in the source reads a configuration, so it does so in production too, against
  the comment on that very line (in production, restrict to valid origins). Here a request
  whose origin is foreign to the host is admitted: the connection is upgraded, its action
  is served, and it is closed only when the client goes away.
\<close>

theorem foreign_origin_is_admitted:
  "CheckOrigin (a_request ''https://evil.example'') \<and>
   HandleConnection (test_env (Some \<circ> enc) (Inl ''unused'') (Inl ''unused''))
     (a_request ''https://evil.example'') []
     [ReadMsg \<lparr>Action = ''list_tasks'', Payload = []\<rparr>, ReadErr ''close 1001 (going away)''] =
   Some (\<lparr>conn = \<lparr>events =
              [Wrote (envelope ''task_error''
                 (enc (DataResponse (error_response ''list_error'' ''Error retrieving tasks'')))),
               Wrote (CloseMessage 1000 ''Closing normally''),
               ConnClosed],
              write_errs = []\<rparr>,
           calls = [GetTasks_call], n_uuid = 0, n_now = 0\<rparr>, Returned)"
  by (simp add: CheckOrigin_def HandleConnection_def Upgrade_def a_request_def dispatch_def
      handleListTasks_def sendError_def sendJSON_def conn_write_def teardown_def test_env_def
      envelope_def error_response_eq CloseNormalClosure_def Let_def)

section \<open>Order and termination of the relays\<close>

lemma written_Wrote_map [simp]: "written (map (\<lambda>p. Wrote (f p)) ps) = map f ps"
  by (induction ps) auto

lemma attempts_Wrote_map [simp]: "attempts (map (\<lambda>p. Wrote (f p)) ps) = map f ps"
  by (induction ps) auto

lemma filter_output_envelopes [simp]:
  "filter is_output (map (envelope ''task_output'') ps) = map (envelope ''task_output'') ps"
  by (induction ps) (auto simp: envelope_def)

lemma filter_terminal_envelopes [simp]:
  "filter is_terminal (map (envelope ''task_output'') ps) = []"
  by (induction ps) (auto simp: envelope_def)


lemma conn_write_ok:
  "conn_write f c = (ok, c') \<Longrightarrow> ok = (\<not> (write_errs c \<noteq> [] \<and> hd (write_errs c)))"
  by (auto simp: conn_write_def split: list.splits)

lemma payloads_Nil [simp]: "payloads e tid [] = []"
  by (simp add: payloads_def)

lemma length_payloads [simp]: "length (payloads e tid xs) = length xs"
  by (simp add: payloads_def)

lemma payloads_Cons:
  "payloads e tid (x # xs) = Marshal e (DataResponse (output_response e tid x)) # payloads e tid xs"
  by (simp add: payloads_def)

lemma relayed_count_le: "relayed_count ps errs \<le> length ps"
  by (induction ps arbitrary: errs) auto

lemma relayed_count_healthy:
  "\<forall>p\<in>set ps. p \<noteq> None \<Longrightarrow> \<forall>b\<in>set errs. \<not> b \<Longrightarrow> relayed_count ps errs = length ps"
proof (induction ps arbitrary: errs)
  case Nil
  then show ?case by simp
next
  case (Cons p ps)
  have "\<forall>b\<in>set (tl errs). \<not> b"
    using Cons.prems(2) by (cases errs) auto
  with Cons show ?case by (cases errs) auto
qed

lemma streamed_count_le: "streamed_count ps ctx_Done i errs \<le> length ps"
  by (induction ps arbitrary: i errs) auto

lemma streamed_count_healthy:
  "\<forall>p\<in>set ps. p \<noteq> None \<Longrightarrow> \<forall>b\<in>set errs. \<not> b \<Longrightarrow> \<forall>j. \<not> ctx_Done j \<Longrightarrow>
     streamed_count ps ctx_Done i errs = length ps"
proof (induction ps arbitrary: i errs)
  case Nil
  then show ?case by simp
next
  case (Cons p ps)
  have "\<forall>b\<in>set (tl (tl errs)). \<not> b"
    using Cons.prems(2) by (cases errs; cases "tl errs") auto
  with Cons show ?case by (cases errs) auto
qed

lemma relay_events:
  "relay e tid xs s = (b, s') \<Longrightarrow>
     \<exists>ps fl. payloads e tid (take (relayed_count (payloads e tid xs) (write_errs (conn s))) xs) =
         map Some ps \<and>
       events (conn s') =
         events (conn s) @ map (\<lambda>p. Wrote (envelope ''task_output'' p)) ps @ fl \<and>
       (fl = [] \<or> (\<exists>p. fl = [WriteFailed (envelope ''task_output'' p)])) \<and>
       b = (relayed_count (payloads e tid xs) (write_errs (conn s)) = length xs) \<and>
       (b \<longrightarrow> fl = [])"
proof (induction xs arbitrary: s)
  case Nil
  then show ?case by (simp add: payloads_def)
next
  case (Cons x xs)
  show ?case
  proof (cases "Marshal e (DataResponse (output_response e tid x))")
    case None
    with Cons.prems have "b = False" "s' = s"
      by (simp_all add: relay_Cons del: relay.simps)
    then show ?thesis
      using None by (intro exI [of _ "[]"]) (simp add: payloads_Cons)
  next
    case (Some p)
    obtain ok c where w: "conn_write (envelope ''task_output'' p) (conn s) = (ok, c)"
      by (cases "conn_write (envelope ''task_output'' p) (conn s)")
    from conn_write_cases [OF w]
    have ev: "events c = events (conn s) @ [if ok then Wrote (envelope ''task_output'' p)
                else WriteFailed (envelope ''task_output'' p)]"
      and we: "write_errs c = tl (write_errs (conn s))" by simp_all
    note okd = conn_write_ok [OF w]
    show ?thesis
    proof (cases ok)
      case False
      with Cons.prems Some w have "b = False" "s' = s\<lparr>conn := c\<rparr>"
        by (simp_all add: relay_Cons del: relay.simps)
      then show ?thesis
        using ev False Some okd
        by (intro exI [of _ "[]"] exI [of _ "[WriteFailed (envelope ''task_output'' p)]"])
           (auto simp: payloads_Cons)
    next
      case True
      with Cons.prems Some w have r: "relay e tid xs (s\<lparr>conn := c\<rparr>) = (b, s')"
        by (simp add: relay_Cons del: relay.simps)
      have rc: "relayed_count (payloads e tid (x # xs)) (write_errs (conn s)) =
                  Suc (relayed_count (payloads e tid xs) (write_errs c))"
        using Some True okd we by (simp add: payloads_Cons)
      from Cons.IH [OF r] obtain ps fl where
        m: "payloads e tid (take (relayed_count (payloads e tid xs) (write_errs c)) xs) =
              map Some ps" and
        a: "events (conn s') = events c @ map (\<lambda>p. Wrote (envelope ''task_output'' p)) ps @ fl" and
        f: "fl = [] \<or> (\<exists>p. fl = [WriteFailed (envelope ''task_output'' p)])" and
        b: "b = (relayed_count (payloads e tid xs) (write_errs c) = length xs)" "b \<longrightarrow> fl = []"
        by auto
      show ?thesis
        unfolding rc
        using m a f b ev True Some
        by (intro exI [of _ "p # ps"] exI [of _ fl]) (simp add: payloads_Cons)
    qed
  qed
qed

lemma relay_summary:
  assumes "relay e tid xs s = (b, s')"
    and "k = relayed_count (payloads e tid xs) (write_errs (conn s))"
  shows "\<exists>ps. payloads e tid (take k xs) = map Some ps \<and>
           outputs_written s' = outputs_written s @ map (envelope ''task_output'') ps \<and>
           terminals s' = terminals s \<and> b = (k = length xs) \<and>
           (b \<longrightarrow> attempts (events (conn s')) =
                   attempts (events (conn s)) @ map (envelope ''task_output'') ps)"
proof -
  from relay_events [OF assms(1)] assms(2) obtain ps fl where
    m: "payloads e tid (take k xs) = map Some ps" and
    a: "events (conn s') = events (conn s) @ map (\<lambda>p. Wrote (envelope ''task_output'' p)) ps @ fl" and
    f: "fl = [] \<or> (\<exists>p. fl = [WriteFailed (envelope ''task_output'' p)])" and
    b: "b = (k = length xs)" "b \<longrightarrow> fl = []"
    by blast
  have o: "outputs_written s' = outputs_written s @ map (envelope ''task_output'') ps"
    using a f by (auto simp: outputs_written_def)
  have t: "terminals s' = terminals s"
    using a f by (auto simp: terminals_def envelope_def)
  have at: "b \<longrightarrow> attempts (events (conn s')) =
                   attempts (events (conn s)) @ map (envelope ''task_output'') ps"
    using a b by simp
  show ?thesis using m o t b(1) at by blast
qed

lemma send_done_trace:
  "attempts (events (conn (send_done e s))) =
     attempts (events (conn s)) @
       [JSONDone (doneMsg e), CloseMessage CloseNormalClosure ''Process finished''] \<and>
   outputs_written (send_done e s) = outputs_written s \<and>
   terminals (send_done e s) = terminals s @ [JSONDone (doneMsg e)]"
  by (auto simp: send_done_def Let_def conn_write_def outputs_written_def terminals_def
      split: list.splits)

lemma stream_loop_Cons:
  "stream_loop e ctx_Done taskID i (x # rest) s =
     (case Marshal e (DataResponse (output_response e taskID x)) of
        None \<Rightarrow> (SendFailed, s)
      | Some p \<Rightarrow>
          (case conn_write (envelope ''task_output'' p) (conn s) of
             (False, c) \<Rightarrow> (SendFailed, s\<lparr>conn := c\<rparr>)
           | (True, c) \<Rightarrow>
               if ctx_Done i
               then (Cancelled, s\<lparr>conn := c, calls := calls s @ [StopTask_call taskID]\<rparr>)
               else stream_loop e ctx_Done taskID (Suc i) rest
                      (s\<lparr>conn := snd (conn_write PingMessage c)\<rparr>)))"
  by (simp add: output_response_eq envelope_def sendJSON_def
      split: option.splits prod.splits bool.splits)

lemma ping_trace:
  "outputs_written (s\<lparr>conn := snd (conn_write PingMessage c)\<rparr>) = outputs_written (s\<lparr>conn := c\<rparr>) \<and>
   terminals (s\<lparr>conn := snd (conn_write PingMessage c)\<rparr>) = terminals (s\<lparr>conn := c\<rparr>)"
  by (auto simp: conn_write_def outputs_written_def terminals_def split: list.splits)


lemma stream_loop_summary:
  "stream_loop e ctx_Done taskID i xs s = (x, s1) \<Longrightarrow>
     \<exists>ps. payloads e taskID
             (take (streamed_count (payloads e taskID xs) ctx_Done i (write_errs (conn s))) xs) =
           map Some ps \<and>
       outputs_written s1 = outputs_written s @ map (envelope ''task_output'') ps \<and>
       terminals s1 = terminals s"
proof (induction xs arbitrary: i s)
  case Nil
  then show ?case by (simp add: payloads_def)
next
  case (Cons y xs)
  show ?case
  proof (cases "Marshal e (DataResponse (output_response e taskID y))")
    case None
    with Cons.prems have "x = SendFailed" "s1 = s"
      by (simp_all add: stream_loop_Cons del: stream_loop.simps)
    then show ?thesis
      using None by (intro exI [of _ "[]"]) (simp add: payloads_Cons)
  next
    case (Some p)
    obtain ok c where w: "conn_write (envelope ''task_output'' p) (conn s) = (ok, c)"
      by (cases "conn_write (envelope ''task_output'' p) (conn s)")
    from conn_write_cases [OF w]
    have ev: "events c = events (conn s) @ [if ok then Wrote (envelope ''task_output'' p)
                else WriteFailed (envelope ''task_output'' p)]"
      and we: "write_errs c = tl (write_errs (conn s))" by simp_all
    note okd = conn_write_ok [OF w]
    show ?thesis
    proof (cases ok)
      case False
      with Cons.prems Some w have "x = SendFailed" "s1 = s\<lparr>conn := c\<rparr>"
        by (simp_all add: stream_loop_Cons del: stream_loop.simps)
      then show ?thesis
        using ev False Some okd
        by (intro exI [of _ "[]"])
           (auto simp: payloads_Cons outputs_written_def terminals_def envelope_def)
    next
      case True
      have oc: "outputs_written (s\<lparr>conn := c\<rparr>) =
                  outputs_written s @ [envelope ''task_output'' p]"
        and tc: "terminals (s\<lparr>conn := c\<rparr>) = terminals s"
        using ev True by (simp_all add: outputs_written_def terminals_def envelope_def)
      show ?thesis
      proof (cases "ctx_Done i")
        case d: True
        with Cons.prems Some w True have
          "x = Cancelled" "s1 = s\<lparr>conn := c, calls := calls s @ [StopTask_call taskID]\<rparr>"
          by (simp_all add: stream_loop_Cons del: stream_loop.simps)
        then show ?thesis
          using oc tc Some True okd d
          by (intro exI [of _ "[p]"])
             (auto simp: payloads_Cons outputs_written_def terminals_def)
      next
        case d: False
        let ?s = "s\<lparr>conn := snd (conn_write PingMessage c)\<rparr>"
        from Cons.prems Some w True d
        have r: "stream_loop e ctx_Done taskID (Suc i) xs ?s = (x, s1)"
          by (simp add: stream_loop_Cons del: stream_loop.simps)
        have wp: "write_errs (conn ?s) = tl (tl (write_errs (conn s)))"
          using conn_write_cases [of PingMessage c "fst (conn_write PingMessage c)"
              "snd (conn_write PingMessage c)"] we
          by simp
        have sc: "streamed_count (payloads e taskID (y # xs)) ctx_Done i (write_errs (conn s)) =
                    Suc (streamed_count (payloads e taskID xs) ctx_Done (Suc i)
                           (write_errs (conn ?s)))"
          using Some True okd d wp by (simp add: payloads_Cons)
        from Cons.IH [OF r] obtain ps where
          m: "payloads e taskID
                (take (streamed_count (payloads e taskID xs) ctx_Done (Suc i)
                         (write_errs (conn ?s))) xs) = map Some ps" and
          o: "outputs_written s1 = outputs_written ?s @ map (envelope ''task_output'') ps" and
          t: "terminals s1 = terminals ?s"
          by blast
        show ?thesis
          unfolding sc
          using m o t oc tc Some ping_trace [where s = s and c = c]
          by (intro exI [of _ "p # ps"]) (simp add: payloads_Cons)
      qed
    qed
  qed
qed

lemma sendTaskCompletion_terminal:
  assumes "\<And>r. Marshal e (DataResponse r) \<noteq> None"
  shows "\<exists>t. is_terminal t \<and> \<not> is_output t \<and>
           (events (conn (sendTaskCompletion e taskID s)) = events (conn s) @ [Wrote t] \<or>
            events (conn (sendTaskCompletion e taskID s)) = events (conn s) @ [WriteFailed t])"
proof (cases "GetTask e (calls s) taskID")
  case (Inl err)
  from sendTaskCompletion_Inl [OF Inl assms]
  show ?thesis
    by (auto simp: task_error_sent_def envelope_sent_def envelope_def split: option.splits)
next
  case (Inr task)
  from sendTaskCompletion_Inr [OF Inr assms]
  show ?thesis
    by (auto simp: envelope_sent_def envelope_def split: option.splits)
qed



lemma create_task_relay:
  assumes "Unmarshal_TaskRequest e payload = Some req"
    and "Name req \<noteq> []" and "Image req \<noteq> []"
    and "createTaskFromRequest e ctx req s = ((task, taskCtx), s1)"
    and "AddTask e (calls s) taskCtx task = Inr ch"
  shows "\<exists>s' oc k ps. handleCreateTask e ctx payload s = (s', oc) \<and>
           k = relayed_count (payloads e (task_ID task) (items ch)) (write_errs (conn s)) \<and>
           k \<le> length (items ch) \<and>
           payloads e (task_ID task) (take k (items ch)) = map Some ps \<and>
           outputs_written s' = outputs_written s @ map (envelope ''task_output'') ps \<and>
           ((\<forall>p\<in>set (payloads e (task_ID task) (items ch)). p \<noteq> None) \<and>
            (\<forall>b\<in>set (write_errs (conn s)). \<not> b) \<longrightarrow> k = length (items ch)) \<and>
           (k = length (items ch) \<and> closes ch \<longrightarrow>
              oc = Returned \<and>
              attempts (events (conn s')) =
                attempts (events (conn s)) @ map (envelope ''task_output'') ps @
                  [JSONDone (doneMsg e), CloseMessage CloseNormalClosure ''Process finished''] \<and>
              terminals s' = terminals s @ [JSONDone (doneMsg e)]) \<and>
           (k = length (items ch) \<and> \<not> closes ch \<longrightarrow> oc = Blocked \<and> terminals s' = terminals s) \<and>
           (k < length (items ch) \<longrightarrow> oc = Returned \<and> terminals s' = terminals s)"
proof -
  let ?s2 = "s1\<lparr>calls := calls s1 @ [AddTask_call taskCtx task]\<rparr>"
  define k where "k = relayed_count (payloads e (task_ID task) (items ch)) (write_errs (conn s))"
  from createTaskFromRequest_frame [OF assms(4)]
  have fr: "conn s1 = conn s" "calls s1 = calls s" by simp_all
  obtain b s3 where r: "relay e (task_ID task) (items ch) ?s2 = (b, s3)"
    by (cases "relay e (task_ID task) (items ch) ?s2")
  have h: "handleCreateTask e ctx payload s =
             (if b then (if closes ch then (send_done e s3, Returned) else (s3, Blocked))
              else (s3, Returned))"
    using assms(1-5) fr r by (simp add: handleCreateTask_def)
  have k2: "k = relayed_count (payloads e (task_ID task) (items ch)) (write_errs (conn ?s2))"
    using fr by (simp add: k_def)
  from relay_summary [OF r k2] obtain ps where
    m: "payloads e (task_ID task) (take k (items ch)) = map Some ps" and
    o: "outputs_written s3 = outputs_written ?s2 @ map (envelope ''task_output'') ps" and
    t: "terminals s3 = terminals ?s2" and
    b: "b = (k = length (items ch))" and
    at: "b \<longrightarrow> attempts (events (conn s3)) =
                   attempts (events (conn ?s2)) @ map (envelope ''task_output'') ps"
    by blast
  have kl: "k \<le> length (items ch)"
    using relayed_count_le [of "payloads e (task_ID task) (items ch)" "write_errs (conn s)"]
    by (simp add: k_def)
  have hl: "(\<forall>p\<in>set (payloads e (task_ID task) (items ch)). p \<noteq> None) \<and>
            (\<forall>b\<in>set (write_errs (conn s)). \<not> b) \<longrightarrow> k = length (items ch)"
    using relayed_count_healthy [of "payloads e (task_ID task) (items ch)" "write_errs (conn s)"]
    by (auto simp: k_def)
  have o2: "outputs_written ?s2 = outputs_written s" and t2: "terminals ?s2 = terminals s"
    and e2: "events (conn ?s2) = events (conn s)"
    using fr by (simp_all add: outputs_written_def terminals_def)
  show ?thesis
  proof (cases b)
    case False
    then have "handleCreateTask e ctx payload s = (s3, Returned)" using h by simp
    then show ?thesis
      using False kl hl m o t b o2 t2 k_def
      by (intro exI [of _ s3] exI [of _ Returned] exI [of _ k] exI [of _ ps]) simp
  next
    case True
    show ?thesis
    proof (cases "closes ch")
      case c: True
      have "handleCreateTask e ctx payload s = (send_done e s3, Returned)"
        using h True c by simp
      then show ?thesis
        using True c kl hl m o t b at o2 t2 e2 k_def send_done_trace [of e s3]
        by (intro exI [of _ "send_done e s3"] exI [of _ Returned] exI [of _ k] exI [of _ ps])
           simp
    next
      case c: False
      have "handleCreateTask e ctx payload s = (s3, Blocked)"
        using h True c by simp
      then show ?thesis
        using True c kl hl m o t b o2 t2 k_def
        by (intro exI [of _ s3] exI [of _ Blocked] exI [of _ k] exI [of _ ps]) simp
    qed
  qed
qed

lemma stream_relay:
  assumes "\<And>r. Marshal e (DataResponse r) \<noteq> None"
    and "closes ch' \<or> fst (stream_loop e ctx_Done taskID 0 (items ch') s) \<noteq> ChannelDrained"
  shows "\<exists>s' k ps t. streamTaskOutput e ctx_Done taskID ch' s = (s', Returned) \<and>
           k = streamed_count (payloads e taskID (items ch')) ctx_Done 0 (write_errs (conn s)) \<and>
           k \<le> length (items ch') \<and>
           payloads e taskID (take k (items ch')) = map Some ps \<and>
           outputs_written s' = outputs_written s @ map (envelope ''task_output'') ps \<and>
           ((\<forall>b\<in>set (write_errs (conn s)). \<not> b) \<and> (\<forall>i. \<not> ctx_Done i) \<longrightarrow>
              k = length (items ch')) \<and>
           terminals s' = terminals s @ [t] \<and>
           last (attempts (events (conn s'))) = t"
proof -
  define k where
    "k = streamed_count (payloads e taskID (items ch')) ctx_Done 0 (write_errs (conn s))"
  obtain x s1 where l: "stream_loop e ctx_Done taskID 0 (items ch') s = (x, s1)"
    by (cases "stream_loop e ctx_Done taskID 0 (items ch') s")
  let ?s' = "sendTaskCompletion e taskID s1"
  have h: "streamTaskOutput e ctx_Done taskID ch' s = (?s', Returned)"
    using assms(2) l by (cases x) (auto simp: streamTaskOutput_def)
  from stream_loop_summary [OF l] obtain ps where
    m: "payloads e taskID (take k (items ch')) = map Some ps" and
    o: "outputs_written s1 = outputs_written s @ map (envelope ''task_output'') ps" and
    t: "terminals s1 = terminals s"
    unfolding k_def by blast
  have kl: "k \<le> length (items ch')"
    using streamed_count_le [of "payloads e taskID (items ch')" ctx_Done 0 "write_errs (conn s)"]
    by (simp add: k_def)
  have pn: "\<forall>p\<in>set (payloads e taskID (items ch')). p \<noteq> None"
    using assms(1) by (auto simp: payloads_def)
  have hl: "(\<forall>b\<in>set (write_errs (conn s)). \<not> b) \<and> (\<forall>i. \<not> ctx_Done i) \<longrightarrow>
              k = length (items ch')"
    using streamed_count_healthy [OF pn, of "write_errs (conn s)" ctx_Done 0]
    by (auto simp: k_def)
  from sendTaskCompletion_terminal [OF assms(1), of taskID s1] obtain tm where
    tm: "is_terminal tm" "\<not> is_output tm" and
    ev: "events (conn ?s') = events (conn s1) @ [Wrote tm] \<or>
         events (conn ?s') = events (conn s1) @ [WriteFailed tm]"
    by blast
  have o': "outputs_written ?s' = outputs_written s1"
    using ev tm by (auto simp: outputs_written_def)
  have t': "terminals ?s' = terminals s1 @ [tm]"
    using ev tm by (auto simp: terminals_def)
  have la: "last (attempts (events (conn ?s'))) = tm"
    using ev by auto
  show ?thesis
    using h kl hl m o t o' t' la k_def
    by (intro exI [of _ ?s'] exI [of _ k] exI [of _ ps] exI [of _ tm]) simp
qed

text \<open>
  C1, as amended. In both relays the \<^verbatim>\<open>task_output\<close> frames that reach the client are
  the envelopes of the first \<open>k\<close> records of the channel, in the channel's order, where
  \<open>k\<close> is the number of records up to the first failure (\<open>relayed_count\<close>,
  \<open>streamed_count\<close>): all of them when every payload serialises, no write fails and, for
  \<open>streamTaskOutput\<close>, the context is not cancelled. In \<open>handleCreateTask\<close>: when all
  records were written and the channel is closed, the handler issues exactly one terminal
  message, the final message, right after the last output record and followed only by a
  close frame; when a serialisation or a write fails (\<open>k\<close> is less than the number of
  records) it returns without any terminal message; when the channel is never closed it
  does not return. In \<open>streamTaskOutput\<close>: on every path on which the loop ends (channel
  closed, failed send, cancellation) exactly one terminal message is issued, and it is the
  last write.
\<close>

theorem relays_keep_order_and_end_once:
  "(Unmarshal_TaskRequest e payload = Some req \<and> Name req \<noteq> [] \<and> Image req \<noteq> [] \<and>
    createTaskFromRequest e ctx req s = ((task, taskCtx), s1) \<and>
    AddTask e (calls s) taskCtx task = Inr ch \<longrightarrow>
      (\<exists>s' oc k ps. handleCreateTask e ctx payload s = (s', oc) \<and>
           k = relayed_count (payloads e (task_ID task) (items ch)) (write_errs (conn s)) \<and>
           k \<le> length (items ch) \<and>
           payloads e (task_ID task) (take k (items ch)) = map Some ps \<and>
           outputs_written s' = outputs_written s @ map (envelope ''task_output'') ps \<and>
           ((\<forall>p\<in>set (payloads e (task_ID task) (items ch)). p \<noteq> None) \<and>
            (\<forall>b\<in>set (write_errs (conn s)). \<not> b) \<longrightarrow> k = length (items ch)) \<and>
           (k = length (items ch) \<and> closes ch \<longrightarrow>
              oc = Returned \<and>
              attempts (events (conn s')) =
                attempts (events (conn s)) @ map (envelope ''task_output'') ps @
                  [JSONDone (doneMsg e), CloseMessage CloseNormalClosure ''Process finished''] \<and>
              terminals s' = terminals s @ [JSONDone (doneMsg e)]) \<and>
           (k = length (items ch) \<and> \<not> closes ch \<longrightarrow> oc = Blocked \<and> terminals s' = terminals s) \<and>
           (k < length (items ch) \<longrightarrow> oc = Returned \<and> terminals s' = terminals s))) \<and>
   ((\<forall>r. Marshal e (DataResponse r) \<noteq> None) \<and>
    (closes ch' \<or> fst (stream_loop e ctx_Done taskID 0 (items ch') s) \<noteq> ChannelDrained) \<longrightarrow>
      (\<exists>s' k ps t. streamTaskOutput e ctx_Done taskID ch' s = (s', Returned) \<and>
           k = streamed_count (payloads e taskID (items ch')) ctx_Done 0 (write_errs (conn s)) \<and>
           k \<le> length (items ch') \<and>
           payloads e taskID (take k (items ch')) = map Some ps \<and>
           outputs_written s' = outputs_written s @ map (envelope ''task_output'') ps \<and>
           ((\<forall>b\<in>set (write_errs (conn s)). \<not> b) \<and> (\<forall>i. \<not> ctx_Done i) \<longrightarrow>
              k = length (items ch')) \<and>
           terminals s' = terminals s @ [t] \<and>
           last (attempts (events (conn s'))) = t))"
proof (intro conjI impI)
  assume a: "Unmarshal_TaskRequest e payload = Some req \<and> Name req \<noteq> [] \<and> Image req \<noteq> [] \<and>
    createTaskFromRequest e ctx req s = ((task, taskCtx), s1) \<and>
    AddTask e (calls s) taskCtx task = Inr ch"
  show "\<exists>s' oc k ps. handleCreateTask e ctx payload s = (s', oc) \<and>
           k = relayed_count (payloads e (task_ID task) (items ch)) (write_errs (conn s)) \<and>
           k \<le> length (items ch) \<and>
           payloads e (task_ID task) (take k (items ch)) = map Some ps \<and>
           outputs_written s' = outputs_written s @ map (envelope ''task_output'') ps \<and>
           ((\<forall>p\<in>set (payloads e (task_ID task) (items ch)). p \<noteq> None) \<and>
            (\<forall>b\<in>set (write_errs (conn s)). \<not> b) \<longrightarrow> k = length (items ch)) \<and>
           (k = length (items ch) \<and> closes ch \<longrightarrow>
              oc = Returned \<and>
              attempts (events (conn s')) =
                attempts (events (conn s)) @ map (envelope ''task_output'') ps @
                  [JSONDone (doneMsg e), CloseMessage CloseNormalClosure ''Process finished''] \<and>
              terminals s' = terminals s @ [JSONDone (doneMsg e)]) \<and>
           (k = length (items ch) \<and> \<not> closes ch \<longrightarrow> oc = Blocked \<and> terminals s' = terminals s) \<and>
           (k < length (items ch) \<longrightarrow> oc = Returned \<and> terminals s' = terminals s)"
    using a by (intro create_task_relay [of e payload req ctx s task taskCtx s1 ch]) simp_all
next
  assume b: "(\<forall>r. Marshal e (DataResponse r) \<noteq> None) \<and>
    (closes ch' \<or> fst (stream_loop e ctx_Done taskID 0 (items ch') s) \<noteq> ChannelDrained)"
  show "\<exists>s' k ps t. streamTaskOutput e ctx_Done taskID ch' s = (s', Returned) \<and>
           k = streamed_count (payloads e taskID (items ch')) ctx_Done 0 (write_errs (conn s)) \<and>
           k \<le> length (items ch') \<and>
           payloads e taskID (take k (items ch')) = map Some ps \<and>
           outputs_written s' = outputs_written s @ map (envelope ''task_output'') ps \<and>
           ((\<forall>b\<in>set (write_errs (conn s)). \<not> b) \<and> (\<forall>i. \<not> ctx_Done i) \<longrightarrow>
              k = length (items ch')) \<and>
           terminals s' = terminals s @ [t] \<and>
           last (attempts (events (conn s'))) = t"
    using b by (intro stream_relay [of e ch' ctx_Done taskID s]) simp_all
qed


text \<open>
  C1 as stated fails: when the first write of the create-task relay returns an error the
  handler returns, and no terminal message is written or even issued.
\<close>

theorem relays_keep_order_and_end_once_counterexample:
  "handleCreateTask
     (test_env (Some \<circ> enc)
        (Inr \<lparr>items = [out_rec ''one'' False ''RUNNING'', out_rec ''two'' False ''RUNNING''],
              closes = True\<rparr>) (Inl ''unused''))
     Background ''hello'' (st0 [True]) =
   (\<lparr>conn = \<lparr>events = [WriteFailed (envelope ''task_output'' ''task-|RUNNING|one||false||'')],
             write_errs = []\<rparr>,
      calls = [AddTask_call (WithCancel Background None) (a_task ''Scheduled'')],
      n_uuid = 1, n_now = 1\<rparr>, Returned)"
  by (simp add: handleCreateTask_def createTaskFromRequest_def test_env_def request_def
      st0_def a_task_def out_rec_def enc_def conn_write_def envelope_def
      TaskResponse_zero_def Let_def)

text \<open>
  Two records on a healthy connection: \<open>handleCreateTask\<close> writes both and then the
  final message, \<open>streamTaskOutput\<close> writes both and then its completion envelope. On a
  connection that fails from its third write on, \<open>streamTaskOutput\<close> stops at the second
  record and still issues its completion envelope.
\<close>

theorem relays_keep_order_and_end_once_witness:
  "handleCreateTask
     (test_env (Some \<circ> enc)
        (Inr \<lparr>items = [out_rec ''one'' False ''RUNNING'', out_rec ''two'' True ''RUNNING''],
              closes = True\<rparr>) (Inr (a_task ''Completed'')))
     Background ''hello'' (st0 []) =
   (\<lparr>conn = \<lparr>events =
        [Wrote (envelope ''task_output'' ''task-|RUNNING|one||false||''),
         Wrote (envelope ''task_output'' ''task-|RUNNING|two||true||''),
         Wrote (JSONDone \<lparr>dm_done = True, dm_exit_code = 0,
                  dm_message = ''Process completed successfully'', dm_status = ''FINISHED''\<rparr>),
         Wrote (CloseMessage 1000 ''Process finished'')],
        write_errs = []\<rparr>,
      calls = [AddTask_call (WithCancel Background None) (a_task ''Scheduled'')],
      n_uuid = 1, n_now = 1\<rparr>, Returned) \<and>
   streamTaskOutput
     (test_env (Some \<circ> enc)
        (Inr \<lparr>items = [out_rec ''one'' False ''RUNNING'', out_rec ''two'' True ''RUNNING''],
              closes = True\<rparr>) (Inr (a_task ''Completed'')))
     (\<lambda>i. False) ''task-''
     \<lparr>items = [out_rec ''one'' False ''RUNNING'', out_rec ''two'' True ''RUNNING''], closes = True\<rparr>
     (st0 []) =
   (\<lparr>conn = \<lparr>events =
        [Wrote (envelope ''task_output'' ''task-|RUNNING|one||false||''),
         Wrote PingMessage,
         Wrote (envelope ''task_output'' ''task-|RUNNING|two||true||''),
         Wrote PingMessage,
         Wrote (envelope ''task_completed'' ''task-|Completed|||false|COMPLETED|T0'')],
        write_errs = []\<rparr>,
      calls = [GetTask_call ''task-''], n_uuid = 0, n_now = 1\<rparr>, Returned) \<and>
   streamTaskOutput
     (test_env (Some \<circ> enc)
        (Inr \<lparr>items = [out_rec ''one'' False ''RUNNING'', out_rec ''two'' True ''RUNNING''],
              closes = True\<rparr>) (Inr (a_task ''Completed'')))
     (\<lambda>i. False) ''task-''
     \<lparr>items = [out_rec ''one'' False ''RUNNING'', out_rec ''two'' True ''RUNNING''], closes = True\<rparr>
     (st0 [False, False, True, True]) =
   (\<lparr>conn = \<lparr>events =
        [Wrote (envelope ''task_output'' ''task-|RUNNING|one||false||''),
         Wrote PingMessage,
         WriteFailed (envelope ''task_output'' ''task-|RUNNING|two||true||''),
         WriteFailed (envelope ''task_completed'' ''task-|Completed|||false|COMPLETED|T0'')],
        write_errs = []\<rparr>,
      calls = [GetTask_call ''task-''], n_uuid = 0, n_now = 1\<rparr>, Returned)"
proof -
  let ?ch = "\<lparr>items = [out_rec ''one'' False ''RUNNING'', out_rec ''two'' True ''RUNNING''],
              closes = True\<rparr>"
  let ?e = "test_env (Some \<circ> enc) (Inr ?ch) (Inr (a_task ''Completed'')) :: string env"
  let ?s1 = "\<lparr>conn = \<lparr>events = [], write_errs = []\<rparr>, calls = [], n_uuid = 1, n_now = 1\<rparr>"
  have A: "Unmarshal_TaskRequest ?e ''hello'' = Some (request ''hello'' ''demo'') \<and>
      Name (request ''hello'' ''demo'') \<noteq> [] \<and> Image (request ''hello'' ''demo'') \<noteq> [] \<and>
      createTaskFromRequest ?e Background (request ''hello'' ''demo'') (st0 []) =
        ((a_task ''Scheduled'', WithCancel Background None), ?s1) \<and>
      AddTask ?e (calls (st0 [])) (WithCancel Background None) (a_task ''Scheduled'') = Inr ?ch"
    by (simp add: createTaskFromRequest_def test_env_def request_def st0_def a_task_def)
  have B: "(\<forall>r. Marshal ?e (DataResponse r) \<noteq> None) \<and>
      (closes ?ch \<or> fst (stream_loop ?e (\<lambda>i. False) ''task-'' 0 (items ?ch) (st0 [])) \<noteq>
         ChannelDrained)"
    by (simp add: test_env_def)
  note T = relays_keep_order_and_end_once [where e = ?e and payload = "''hello''"
      and req = "request ''hello'' ''demo''" and ctx = Background and s = "st0 []"
      and task = "a_task ''Scheduled''" and taskCtx = "WithCancel Background None"
      and ?s1.0 = ?s1 and ch = ?ch and ch' = ?ch and ctx_Done = "\<lambda>i. False"
      and taskID = "''task-''"]
  from T A obtain s' oc where
    h: "handleCreateTask ?e Background ''hello'' (st0 []) = (s', oc)"
    by blast
  from T B obtain s'' where
    g: "streamTaskOutput ?e (\<lambda>i. False) ''task-'' ?ch (st0 []) = (s'', Returned)"
    by blast
  have 1: "handleCreateTask ?e Background ''hello'' (st0 []) =
   (\<lparr>conn = \<lparr>events =
        [Wrote (envelope ''task_output'' ''task-|RUNNING|one||false||''),
         Wrote (envelope ''task_output'' ''task-|RUNNING|two||true||''),
         Wrote (JSONDone \<lparr>dm_done = True, dm_exit_code = 0,
                  dm_message = ''Process completed successfully'', dm_status = ''FINISHED''\<rparr>),
         Wrote (CloseMessage 1000 ''Process finished'')],
        write_errs = []\<rparr>,
      calls = [AddTask_call (WithCancel Background None) (a_task ''Scheduled'')],
      n_uuid = 1, n_now = 1\<rparr>, Returned)"
    using h
    by (simp add: handleCreateTask_def createTaskFromRequest_def test_env_def request_def
        st0_def a_task_def out_rec_def enc_def conn_write_def envelope_def send_done_def
        doneMsg_def CloseNormalClosure_def TaskResponse_zero_def Let_def)
  have 2: "streamTaskOutput ?e (\<lambda>i. False) ''task-'' ?ch (st0 []) =
   (\<lparr>conn = \<lparr>events =
        [Wrote (envelope ''task_output'' ''task-|RUNNING|one||false||''),
         Wrote PingMessage,
         Wrote (envelope ''task_output'' ''task-|RUNNING|two||true||''),
         Wrote PingMessage,
         Wrote (envelope ''task_completed'' ''task-|Completed|||false|COMPLETED|T0'')],
        write_errs = []\<rparr>,
      calls = [GetTask_call ''task-''], n_uuid = 0, n_now = 1\<rparr>, Returned)"
    using g
    by (simp add: streamTaskOutput_def sendTaskCompletion_def sendJSON_def conn_write_def
        test_env_def st0_def out_rec_def enc_def a_task_def envelope_def TaskResponse_zero_def
        Let_def)
  have 3: "streamTaskOutput ?e (\<lambda>i. False) ''task-'' ?ch (st0 [False, False, True, True]) =
   (\<lparr>conn = \<lparr>events =
        [Wrote (envelope ''task_output'' ''task-|RUNNING|one||false||''),
         Wrote PingMessage,
         WriteFailed (envelope ''task_output'' ''task-|RUNNING|two||true||''),
         WriteFailed (envelope ''task_completed'' ''task-|Completed|||false|COMPLETED|T0'')],
        write_errs = []\<rparr>,
      calls = [GetTask_call ''task-''], n_uuid = 0, n_now = 1\<rparr>, Returned)"
    by (simp add: streamTaskOutput_def sendTaskCompletion_def sendJSON_def conn_write_def
        test_env_def st0_def out_rec_def enc_def a_task_def envelope_def TaskResponse_zero_def
        Let_def)
  show ?thesis using 1 2 3 by (intro conjI)
qed

end
